theory Spec2Isabelle
  imports Main "HOL-Library.Word"
begin

section \<open>Structured errors (errors.go)\<close>

text \<open>
  The error codes of \<^verbatim>\<open>errors.go\<close>, as the strings the source declares.
\<close>

definition EInternal :: string where "EInternal = ''internal error''"
definition ENotFound :: string where "ENotFound = ''not found''"
definition EConflict :: string where "EConflict = ''conflict''"
definition EInvalid :: string where "EInvalid = ''invalid''"
definition EEmptyValue :: string where "EEmptyValue = ''empty value''"
definition EUnavailable :: string where "EUnavailable = ''unavailable''"
definition EForbidden :: string where "EForbidden = ''forbidden''"
definition EMethodNotAllowed :: string where "EMethodNotAllowed = ''method not allowed''"

text \<open>
  A value of Go's interface type \<^verbatim>\<open>error\<close>:
  \<^item> \<open>NilErr\<close> is the nil interface (no error);
  \<^item> \<open>Opaque m\<close> is an error that is not a \<^verbatim>\<open>*Error\<close> (for example \<^verbatim>\<open>errors.New(m)\<close>);
  \<^item> \<open>NilError\<close> is a nil \<^verbatim>\<open>*Error\<close> held in a non-nil interface;
  \<^item> \<open>Error code msg op err\<close> is \<^verbatim>\<open>&Error{Code: code, Msg: msg, Op: op, Err: err}\<close>; a field
    the struct literal leaves out is the empty string, or \<open>NilErr\<close> for \<^verbatim>\<open>Err\<close>.
\<close>

datatype error =
    NilErr
  | Opaque string
  | NilError
  | Error (Code: string) (Msg: string) (Op: string) (Err: error)

fun ErrorCode :: "error \<Rightarrow> string" where
  "ErrorCode NilErr = ''''"
| "ErrorCode (Opaque m) = EInternal"
| "ErrorCode NilError = ''''"
| "ErrorCode (Error code msg op err) =
     (if code \<noteq> '''' then code
      else if err \<noteq> NilErr then ErrorCode err
      else EInternal)"

fun ErrorOp :: "error \<Rightarrow> string" where
  "ErrorOp NilErr = ''''"
| "ErrorOp (Opaque m) = ''''"
| "ErrorOp NilError = ''''"
| "ErrorOp (Error code msg op err) =
     (if op \<noteq> '''' then op
      else if err \<noteq> NilErr then ErrorOp err
      else '''')"

fun ErrorMessage :: "error \<Rightarrow> string" where
  "ErrorMessage NilErr = ''''"
| "ErrorMessage (Opaque m) = ''An internal error has occurred.''"
| "ErrorMessage NilError = ''''"
| "ErrorMessage (Error code msg op err) =
     (if msg \<noteq> '''' then msg
      else if err \<noteq> NilErr then ErrorMessage err
      else ''An internal error has occurred.'')"

section \<open>Data model\<close>

text \<open>
  Modelled from the spec: the identifier type is declared outside the given sources. The
  spec describes it as an opaque fixed-width value with a distinguished invalid/zero value
  and a canonical string encoding; the tests build one with \<^verbatim>\<open>platform.ID(1)\<close>. The keyed
  maps of the service are keyed by \<^verbatim>\<open>id.String()\<close>; the encoding being canonical, the model
  keys them by the identifier itself.
\<close>

type_synonym ID = "64 word"

text \<open>
  Modelled from the spec: \<^verbatim>\<open>ID.Valid\<close> is declared outside the given sources. Validity is a
  pure predicate of the value: every identifier but the zero one is valid.
\<close>

definition Valid :: "ID \<Rightarrow> bool" where
  "Valid i \<longleftrightarrow> i \<noteq> 0"

text \<open>A point in time (\<^verbatim>\<open>time.Time\<close> of the Go library), as a number.\<close>

type_synonym Time = int

text \<open>
  Modelled from the spec: \<^verbatim>\<open>Cell\<close>, \<^verbatim>\<open>Dashboard\<close>, \<^verbatim>\<open>View\<close> and the entities of the other
  kinds are declared outside the given sources. A cell is
  \<open>{ID, ViewID, position/layout fields}\<close>: the layout fields are the extension part of the
  record (\<open>'c Cell_scheme\<close>). A dashboard is
  \<open>{ID, Name, Description, Cells, Meta: {CreatedAt, UpdatedAt}}\<close>. Of a view only its ID is
  ever set by the operations below. An entity of another named kind (bucket, organization,
  telegraf configuration, user) is taken by its ID and its name.

  The Go code holds dashboards and cells through pointers and changes them in place. The
  model passes values: an operation loads the dashboard, computes the changed value and
  stores it. This is the code's behaviour under the ownership rule of the spec (the store
  alone holds the objects it stores, a caller's cell is not already attached, no pointer
  is nil), for a dashboard stored under its own ID, which is how \<^verbatim>\<open>PutDashboard\<close> stores.
\<close>

record Cell =
  Cell_ID :: ID
  ViewID :: ID

record DashboardMeta =
  CreatedAt :: Time
  UpdatedAt :: Time

record 'c Dashboard =
  Dashboard_ID :: ID
  Dashboard_Name :: string
  Dashboard_Description :: string
  Cells :: "'c Cell_scheme list"
  Meta :: DashboardMeta

record View =
  View_ID :: ID

record Entity =
  Entity_ID :: ID
  Entity_Name :: string

text \<open>
  A value of the dashboard map: the map holds \<^verbatim>\<open>interface{}\<close> values, so a value is a
  dashboard or a value of another Go type, kept by the name \<^verbatim>\<open>%T\<close> prints.
\<close>

datatype 'c kv_value = DashboardV "'c Dashboard" | OtherV string

text \<open>
  The in-memory service. \<open>dashboardKV\<close> and \<open>viewKV\<close> are the maps of dashboards and
  views; \<open>bucketKV\<close>, \<open>organizationKV\<close>, \<open>telegrafConfigKV\<close> and \<open>userKV\<close> the maps of
  the other named kinds; \<open>labels\<close> is the state of the label collaborator, of a type the
  model leaves open. The ID generator and the clock are fields of the Go service
  (\<^verbatim>\<open>s.IDGenerator\<close>, \<^verbatim>\<open>s.time\<close>) that may answer differently at every call: the model
  holds each as the sequence of its answers and the number of calls made so far.
\<close>

record ('c, 'l) Service =
  dashboardKV :: "ID \<rightharpoonup> 'c kv_value"
  viewKV :: "ID \<rightharpoonup> View"
  bucketKV :: "ID \<rightharpoonup> Entity"
  organizationKV :: "ID \<rightharpoonup> Entity"
  telegrafConfigKV :: "ID \<rightharpoonup> Entity"
  userKV :: "ID \<rightharpoonup> Entity"
  labels :: 'l
  IDGenerator :: "nat \<Rightarrow> ID"
  idCalls :: nat
  timeFn :: "nat \<Rightarrow> Time"
  timeCalls :: nat

definition newID :: "('c, 'l) Service \<Rightarrow> ID \<times> ('c, 'l) Service" where
  "newID s = (IDGenerator s (idCalls s), s\<lparr>idCalls := Suc (idCalls s)\<rparr>)"

definition time :: "('c, 'l) Service \<Rightarrow> Time \<times> ('c, 'l) Service" where
  "time s = (timeFn s (timeCalls s), s\<lparr>timeCalls := Suc (timeCalls s)\<rparr>)"

text \<open>
  Modelled from the spec: the operation labels and the messages are constants declared
  outside the given sources. A label is taken as the name of its operation, the prefix as
  the name of the package, a message as the words of its name. No result below depends on
  their values.
\<close>

definition OpPrefix :: string where "OpPrefix = ''inmem/''"
definition OpFindDashboardByID :: string where "OpFindDashboardByID = ''FindDashboardByID''"
definition OpFindDashboards :: string where "OpFindDashboards = ''FindDashboards''"
definition OpCreateDashboard :: string where "OpCreateDashboard = ''CreateDashboard''"
definition OpUpdateDashboard :: string where "OpUpdateDashboard = ''UpdateDashboard''"
definition OpDeleteDashboard :: string where "OpDeleteDashboard = ''DeleteDashboard''"
definition OpAddDashboardCell :: string where "OpAddDashboardCell = ''AddDashboardCell''"
definition OpRemoveDashboardCell :: string where "OpRemoveDashboardCell = ''RemoveDashboardCell''"
definition OpUpdateDashboardCell :: string where "OpUpdateDashboardCell = ''UpdateDashboardCell''"
definition OpReplaceDashboardCells :: string where
  "OpReplaceDashboardCells = ''ReplaceDashboardCells''"
definition ErrDashboardNotFound :: string where "ErrDashboardNotFound = ''dashboard not found''"
definition ErrCellNotFound :: string where "ErrCellNotFound = ''cell not found''"
definition ErrViewNotFound :: string where "ErrViewNotFound = ''view not found''"

section \<open>The dashboard store (inmem, dashboard operations)\<close>

definition loadDashboard :: "('c, 'l) Service \<Rightarrow> ID \<Rightarrow> error + 'c Dashboard" where
  "loadDashboard s i =
     (case dashboardKV s i of
        None \<Rightarrow> Inl (Error ENotFound ErrDashboardNotFound '''' NilErr)
      | Some (OtherV t) \<Rightarrow> Inl (Error EInvalid (''type '' @ t @ '' is not a dashboard'') '''' NilErr)
      | Some (DashboardV d) \<Rightarrow> Inr d)"

definition FindDashboardByID :: "('c, 'l) Service \<Rightarrow> ID \<Rightarrow> error + 'c Dashboard" where
  "FindDashboardByID s i =
     (case loadDashboard s i of
        Inl pe \<Rightarrow> Inl (Error '''' '''' (OpPrefix @ OpFindDashboardByID) pe)
      | Inr d \<Rightarrow> Inr d)"

record DashboardFilter =
  IDs :: "ID list"

record FindOptions =
  SortBy :: string

definition filterDashboardFn :: "DashboardFilter \<Rightarrow> 'c Dashboard \<Rightarrow> bool" where
  "filterDashboardFn flt =
     (if length (IDs flt) > 0 then (\<lambda>d. Dashboard_ID d \<in> set (IDs flt)) else (\<lambda>d. True))"

text \<open>
  \<^verbatim>\<open>dashboardKV.Range\<close> with the callback of \<^verbatim>\<open>FindDashboards\<close>. The order in which Range
  visits the keys is not specified; the model takes it as the list \<open>visit\<close>. The callback
  stops the walk at the first value that is not a dashboard.
\<close>

fun rangeDashboards ::
  "(ID \<rightharpoonup> 'c kv_value) \<Rightarrow> ('c Dashboard \<Rightarrow> bool) \<Rightarrow> ID list \<Rightarrow> 'c Dashboard list \<Rightarrow> 'c Dashboard list"
where
  "rangeDashboards m filterF [] ds = ds"
| "rangeDashboards m filterF (k # ks) ds =
     (case m k of
        None \<Rightarrow> rangeDashboards m filterF ks ds
      | Some (OtherV t) \<Rightarrow> ds
      | Some (DashboardV d) \<Rightarrow> rangeDashboards m filterF ks (if filterF d then ds @ [d] else ds))"

text \<open>
  \<^verbatim>\<open>platform.SortDashboards\<close> is declared outside the given sources and is a parameter. It
  sorts the slice in place, so the count returned is the length before sorting.
\<close>

definition FindDashboards ::
  "(string \<Rightarrow> 'c Dashboard list \<Rightarrow> 'c Dashboard list) \<Rightarrow> ID list \<Rightarrow> ('c, 'l) Service \<Rightarrow>
     DashboardFilter \<Rightarrow> FindOptions \<Rightarrow> 'c Dashboard list \<times> nat \<times> error"
where
  "FindDashboards SortDashboards visit s flt opts =
     (let op = OpPrefix @ OpFindDashboards in
      if length (IDs flt) = 1 then
        (case FindDashboardByID s (IDs flt ! 0) of
           Inl err \<Rightarrow>
             if ErrorCode err \<noteq> ENotFound then ([], 0, Error '''' '''' op err)
             else ([], 0, NilErr)
         | Inr d \<Rightarrow> ([d], 1, NilErr))
      else
        (let ds = rangeDashboards (dashboardKV s) (filterDashboardFn flt) visit []
         in (SortDashboards (SortBy opts) ds, length ds, NilErr)))"

definition PutDashboard :: "('c, 'l) Service \<Rightarrow> 'c Dashboard \<Rightarrow> error \<times> ('c, 'l) Service" where
  "PutDashboard s o' = (NilErr, s\<lparr>dashboardKV := (dashboardKV s)(Dashboard_ID o' \<mapsto> DashboardV o')\<rparr>)"

text \<open>
  \<^verbatim>\<open>PutDashboardWithMeta\<close> writes \<^verbatim>\<open>UpdatedAt\<close> through the pointer it is given; the model
  returns the stamped dashboard with the error and the state.
\<close>

definition PutDashboardWithMeta ::
  "('c, 'l) Service \<Rightarrow> 'c Dashboard \<Rightarrow> error \<times> 'c Dashboard \<times> ('c, 'l) Service"
where
  "PutDashboardWithMeta s d =
     (let (t, s1) = time s;
          d1 = d\<lparr>Meta := (Meta d)\<lparr>UpdatedAt := t\<rparr>\<rparr>;
          (err, s2) = PutDashboard s1 d1
      in (err, d1, s2))"

definition CreateDashboard ::
  "('c, 'l) Service \<Rightarrow> 'c Dashboard \<Rightarrow> error \<times> 'c Dashboard \<times> ('c, 'l) Service"
where
  "CreateDashboard s d =
     (let (i, s1) = newID s;
          d1 = d\<lparr>Dashboard_ID := i\<rparr>;
          (t, s2) = time s1;
          d2 = d1\<lparr>Meta := (Meta d1)\<lparr>CreatedAt := t\<rparr>\<rparr>;
          (err, d3, s3) = PutDashboardWithMeta s2 d2
      in if err \<noteq> NilErr then (Error '''' '''' OpCreateDashboard err, d3, s3)
         else (NilErr, d3, s3))"

text \<open>
  Modelled from the spec: \<^verbatim>\<open>DashboardUpdate\<close> and \<^verbatim>\<open>CellUpdate\<close> are declared outside the
  given sources. A patch is taken by its two methods: \<open>upd_Valid\<close> is what \<^verbatim>\<open>Valid()\<close>
  returns (\<open>NilErr\<close> for a patch that passes its validation) and \<open>upd_Apply\<close> is what
  \<^verbatim>\<open>Apply\<close> does to the object it is given, with the error it returns.
\<close>

record 'a Update =
  upd_Valid :: error
  upd_Apply :: "'a \<Rightarrow> error \<times> 'a"

type_synonym 'c DashboardUpdate = "'c Dashboard Update"
type_synonym 'c CellUpdate = "'c Cell_scheme Update"

text \<open>
  \<^verbatim>\<open>upd.Apply(d)\<close> writes through the pointer that \<^verbatim>\<open>FindDashboardByID\<close> returned, so what
  it changed is in the map from then on, also when it returns an error.
\<close>

definition UpdateDashboard ::
  "('c, 'l) Service \<Rightarrow> ID \<Rightarrow> 'c DashboardUpdate \<Rightarrow> (error + 'c Dashboard) \<times> ('c, 'l) Service"
where
  "UpdateDashboard s i upd =
     (let op = OpPrefix @ OpUpdateDashboard in
      if upd_Valid upd \<noteq> NilErr then (Inl (Error '''' '''' op (upd_Valid upd)), s)
      else
        (case FindDashboardByID s i of
           Inl err \<Rightarrow> (Inl (Error '''' '''' op err), s)
         | Inr d \<Rightarrow>
             (let (aerr, d1) = upd_Apply upd d;
                  s1 = s\<lparr>dashboardKV := (dashboardKV s)(i \<mapsto> DashboardV d1)\<rparr>
              in if aerr \<noteq> NilErr then (Inl (Error '''' '''' op aerr), s1)
                 else
                   (let (perr, d2, s2) = PutDashboardWithMeta s1 d1
                    in if perr \<noteq> NilErr then (Inl (Error '''' '''' op perr), s2)
                       else (Inr d2, s2)))))"

text \<open>
  Modelled from the spec: \<^verbatim>\<open>deleteLabel\<close> is declared outside the given sources. It is the
  label collaborator of the spec, \<open>DeleteLabelsForResource(resourceID) \<rightarrow> error\<close>: a parameter
  that acts on the label state alone.
\<close>

definition DeleteDashboard ::
  "('l \<Rightarrow> ID \<Rightarrow> error \<times> 'l) \<Rightarrow> ('c, 'l) Service \<Rightarrow> ID \<Rightarrow> error \<times> ('c, 'l) Service"
where
  "DeleteDashboard deleteLabel s i =
     (let op = OpPrefix @ OpDeleteDashboard in
      case FindDashboardByID s i of
        Inl err \<Rightarrow> (Error '''' '''' op err, s)
      | Inr d \<Rightarrow>
          (let s1 = s\<lparr>dashboardKV := (dashboardKV s)(i := None)\<rparr>;
               (err, l1) = deleteLabel (labels s1) i;
               s2 = s1\<lparr>labels := l1\<rparr>
           in if err \<noteq> NilErr then (Error '''' '''' op err, s2)
              else (NilErr, s2)))"

section \<open>The view store\<close>

text \<open>
  Modelled from the spec: \<^verbatim>\<open>AddDashboardCellOptions\<close> is declared outside the given sources.
  The options of \<open>AddCell\<close> can indicate an existing view that should be reused: \<open>UsingView\<close>
  is the ID of that view, the invalid ID when there is none.
\<close>

record AddDashboardCellOptions =
  UsingView :: ID

text \<open>
  Modelled from the spec: \<^verbatim>\<open>PutView\<close> is declared outside the given sources. The view store
  is a keyed entity map of views; \<open>PutView\<close> unconditionally creates or overwrites the view
  under its ID.
\<close>

definition PutView :: "('c, 'l) Service \<Rightarrow> View \<Rightarrow> error \<times> ('c, 'l) Service" where
  "PutView s v = (NilErr, s\<lparr>viewKV := (viewKV s)(View_ID v \<mapsto> v)\<rparr>)"

text \<open>
  Modelled from the spec: \<^verbatim>\<open>DeleteView\<close> is declared outside the given sources. It deletes
  the view stored under the ID; it fails, with \<open>NotFound\<close>, when no view is stored there
  (the spec lets the deletion fail and names no other cause).
\<close>

definition DeleteView :: "('c, 'l) Service \<Rightarrow> ID \<Rightarrow> error \<times> ('c, 'l) Service" where
  "DeleteView s i =
     (case viewKV s i of
        None \<Rightarrow> (Error ENotFound ErrViewNotFound '''' NilErr, s)
      | Some v \<Rightarrow> (NilErr, s\<lparr>viewKV := (viewKV s)(i := None)\<rparr>))"

text \<open>
  Modelled from the spec: \<^verbatim>\<open>createViewIfNotExists\<close> is declared outside the given sources. It
  creates the backing view of a cell. When the options indicate an existing view to reuse it
  binds the cell to that view and creates nothing, failing with \<open>NotFound\<close> when there is no
  such view; otherwise it stores a new view under a generated ID and binds the cell to it.
  The cell is the caller's, changed through the pointer: the model returns it.
\<close>

definition createViewIfNotExists ::
  "('c, 'l) Service \<Rightarrow> 'c Cell_scheme \<Rightarrow> AddDashboardCellOptions \<Rightarrow>
     error \<times> 'c Cell_scheme \<times> ('c, 'l) Service"
where
  "createViewIfNotExists s cell opts =
     (if Valid (UsingView opts) then
        (case viewKV s (UsingView opts) of
           None \<Rightarrow> (Error ENotFound ErrViewNotFound '''' NilErr, cell, s)
         | Some v \<Rightarrow> (NilErr, cell\<lparr>ViewID := UsingView opts\<rparr>, s))
      else
        (let (i, s1) = newID s;
             (err, s2) = PutView s1 \<lparr>View_ID = i\<rparr>
         in if err \<noteq> NilErr then (err, cell, s2)
            else (NilErr, cell\<lparr>ViewID := i\<rparr>, s2)))"

section \<open>Cells of a dashboard\<close>

text \<open>
  \<^verbatim>\<open>AddDashboardCell\<close> writes the generated ID (and the view's ID) into the caller's cell;
  the model returns the cell with the error and the state.
\<close>

definition AddDashboardCell ::
  "('c, 'l) Service \<Rightarrow> ID \<Rightarrow> 'c Cell_scheme \<Rightarrow> AddDashboardCellOptions \<Rightarrow>
     error \<times> 'c Cell_scheme \<times> ('c, 'l) Service"
where
  "AddDashboardCell s i cell opts =
     (let op = OpPrefix @ OpAddDashboardCell in
      case FindDashboardByID s i of
        Inl err \<Rightarrow> (Error '''' '''' op err, cell, s)
      | Inr d \<Rightarrow>
          (let (ci, s1) = newID s;
               cell1 = cell\<lparr>Cell_ID := ci\<rparr>;
               (verr, cell2, s2) = createViewIfNotExists s1 cell1 opts
           in if verr \<noteq> NilErr then (Error '''' '''' op verr, cell2, s2)
              else
                (let d1 = d\<lparr>Cells := Cells d @ [cell2]\<rparr>;
                     (perr, d2, s3) = PutDashboardWithMeta s2 d1
                 in if perr \<noteq> NilErr then (Error '''' '''' op perr, cell2, s3)
                    else (NilErr, cell2, s3))))"

definition PutDashboardCell ::
  "('c, 'l) Service \<Rightarrow> ID \<Rightarrow> 'c Cell_scheme \<Rightarrow> error \<times> ('c, 'l) Service"
where
  "PutDashboardCell s i cell =
     (case FindDashboardByID s i of
        Inl err \<Rightarrow> (err, s)
      | Inr d \<Rightarrow>
          (let view = \<lparr>View_ID = ViewID cell\<rparr>;
               (verr, s1) = PutView s view
           in if verr \<noteq> NilErr then (verr, s1)
              else PutDashboard s1 (d\<lparr>Cells := Cells d @ [cell]\<rparr>)))"

text \<open>
  The search loop of \<^verbatim>\<open>RemoveDashboardCell\<close> and \<^verbatim>\<open>UpdateDashboardCell\<close>: the index of the
  first cell with the given ID, \<open>None\<close> where the code leaves \<^verbatim>\<open>idx\<close> at \<open>-1\<close>.
\<close>

fun cellIndex :: "ID \<Rightarrow> 'c Cell_scheme list \<Rightarrow> nat option" where
  "cellIndex cellID [] = None"
| "cellIndex cellID (cell # cells) =
     (if Cell_ID cell = cellID then Some 0
      else (case cellIndex cellID cells of None \<Rightarrow> None | Some idx \<Rightarrow> Some (Suc idx)))"

definition RemoveDashboardCell ::
  "('c, 'l) Service \<Rightarrow> ID \<Rightarrow> ID \<Rightarrow> error \<times> ('c, 'l) Service"
where
  "RemoveDashboardCell s dashboardID cellID =
     (let op = OpPrefix @ OpRemoveDashboardCell in
      case FindDashboardByID s dashboardID of
        Inl err \<Rightarrow> (Error '''' '''' op err, s)
      | Inr d \<Rightarrow>
          (case cellIndex cellID (Cells d) of
             None \<Rightarrow> (Error ENotFound ErrCellNotFound op NilErr, s)
           | Some idx \<Rightarrow>
               (let (verr, s1) = DeleteView s (ViewID (Cells d ! idx))
                in if verr \<noteq> NilErr then (verr, s1)
                   else
                     (let d1 = d\<lparr>Cells := take idx (Cells d) @ drop (Suc idx) (Cells d)\<rparr>;
                          (perr, d2, s2) = PutDashboardWithMeta s1 d1
                      in (perr, s2)))))"

text \<open>
  \<^verbatim>\<open>upd.Apply(d.Cells[idx])\<close> writes through the pointer held by the stored dashboard, so
  what it changed is in the map from then on, also when it returns an error.
\<close>

definition UpdateDashboardCell ::
  "('c, 'l) Service \<Rightarrow> ID \<Rightarrow> ID \<Rightarrow> 'c CellUpdate \<Rightarrow> (error + 'c Cell_scheme) \<times> ('c, 'l) Service"
where
  "UpdateDashboardCell s dashboardID cellID upd =
     (let op = OpPrefix @ OpUpdateDashboardCell in
      if upd_Valid upd \<noteq> NilErr then (Inl (Error '''' '''' op (upd_Valid upd)), s)
      else
        (case FindDashboardByID s dashboardID of
           Inl err \<Rightarrow> (Inl (Error '''' '''' op err), s)
         | Inr d \<Rightarrow>
             (case cellIndex cellID (Cells d) of
                None \<Rightarrow> (Inl (Error ENotFound ErrCellNotFound op NilErr), s)
              | Some idx \<Rightarrow>
                  (let (aerr, cell) = upd_Apply upd (Cells d ! idx);
                       d1 = d\<lparr>Cells := (Cells d)[idx := cell]\<rparr>;
                       s1 = s\<lparr>dashboardKV := (dashboardKV s)(dashboardID \<mapsto> DashboardV d1)\<rparr>
                   in if aerr \<noteq> NilErr then (Inl (Error '''' '''' op aerr), s1)
                      else
                        (let (perr, d2, s2) = PutDashboardWithMeta s1 d1
                         in if perr \<noteq> NilErr then (Inl (Error '''' '''' op perr), s2)
                            else (Inr cell, s2))))))"

text \<open>
  The first loop of \<^verbatim>\<open>ReplaceDashboardCells\<close> builds the lookup of the attached cells by
  ID (a later cell with the same ID replaces an earlier one); the second validates the
  proposed cells in order and returns at the first one it rejects.
\<close>

definition cellsByID :: "'c Cell_scheme list \<Rightarrow> (ID \<rightharpoonup> 'c Cell_scheme)" where
  "cellsByID cells = fold (\<lambda>cell ids. ids(Cell_ID cell \<mapsto> cell)) cells Map.empty"

fun validateCells :: "string \<Rightarrow> (ID \<rightharpoonup> 'c Cell_scheme) \<Rightarrow> 'c Cell_scheme list \<Rightarrow> error" where
  "validateCells op ids [] = NilErr"
| "validateCells op ids (cell # cs) =
     (if \<not> Valid (Cell_ID cell) then Error EInvalid ''cannot provide empty cell id'' op NilErr
      else
        (case ids (Cell_ID cell) of
           None \<Rightarrow> Error EConflict ''cannot replace cells that were not already present'' op NilErr
         | Some cl \<Rightarrow>
             if ViewID cl \<noteq> ViewID cell
             then Error EInvalid ''cannot update view id in replace'' op NilErr
             else validateCells op ids cs))"

definition ReplaceDashboardCells ::
  "('c, 'l) Service \<Rightarrow> ID \<Rightarrow> 'c Cell_scheme list \<Rightarrow> error \<times> ('c, 'l) Service"
where
  "ReplaceDashboardCells s i cs =
     (let op = OpPrefix @ OpReplaceDashboardCells in
      case FindDashboardByID s i of
        Inl err \<Rightarrow> (Error '''' '''' op err, s)
      | Inr d \<Rightarrow>
          (let ids = cellsByID (Cells d);
               verr = validateCells op ids cs
           in if verr \<noteq> NilErr then (verr, s)
              else
                (let d1 = d\<lparr>Cells := cs\<rparr>;
                     (perr, d2, s1) = PutDashboardWithMeta s d1
                 in (perr, s1))))"

section \<open>Name resolution\<close>

text \<open>
  Modelled from the spec: the resource kinds are declared outside the given sources. A
  resource kind is a string tag; the recognized kinds are the ones the spec lists, and the
  kinds whose entities have no name are authorizations, tasks and sources.
\<close>

type_synonym Resource = string

definition AuthorizationsResource :: Resource where "AuthorizationsResource = ''authorizations''"
definition BucketsResource :: Resource where "BucketsResource = ''buckets''"
definition DashboardsResource :: Resource where "DashboardsResource = ''dashboards''"
definition OrgsResource :: Resource where "OrgsResource = ''orgs''"
definition SourcesResource :: Resource where "SourcesResource = ''sources''"
definition TasksResource :: Resource where "TasksResource = ''tasks''"
definition TelegrafsResource :: Resource where "TelegrafsResource = ''telegrafs''"
definition UsersResource :: Resource where "UsersResource = ''users''"

definition recognizedResources :: "Resource list" where
  "recognizedResources =
     [AuthorizationsResource, BucketsResource, DashboardsResource, OrgsResource,
      SourcesResource, TasksResource, TelegrafsResource, UsersResource]"

definition namelessResources :: "Resource list" where
  "namelessResources = [AuthorizationsResource, TasksResource, SourcesResource]"

text \<open>
  Modelled from the spec: the lookup service (\<^verbatim>\<open>Service.Name\<close>) is declared outside the given
  sources; only its test is among them. Following the spec, \<open>Name\<close>
  \<^item> fails with \<open>Invalid\<close> if the ID is not valid or the kind is not recognized;
  \<^item> returns the empty string, with no lookup, for a kind whose entities have no name;
  \<^item> otherwise loads the entity from the store of its kind (\<open>loadEntity\<close>; dashboards with
    \<open>FindDashboardByID\<close>), fails with \<open>NotFound\<close> if it is absent and returns its name
    otherwise.
  The spec gives the code of each failure and neither a message nor an operation label.
\<close>

definition loadEntity :: "(ID \<rightharpoonup> Entity) \<Rightarrow> ID \<Rightarrow> error + string" where
  "loadEntity kv i =
     (case kv i of
        None \<Rightarrow> Inl (Error ENotFound '''' '''' NilErr)
      | Some e \<Rightarrow> Inr (Entity_Name e))"

definition Name :: "('c, 'l) Service \<Rightarrow> Resource \<Rightarrow> ID \<Rightarrow> error + string" where
  "Name s resource i =
     (if \<not> Valid i \<or> resource \<notin> set recognizedResources
      then Inl (Error EInvalid '''' '''' NilErr)
      else if resource \<in> set namelessResources then Inr ''''
      else if resource = BucketsResource then loadEntity (bucketKV s) i
      else if resource = DashboardsResource then
        (case FindDashboardByID s i of Inl err \<Rightarrow> Inl err | Inr d \<Rightarrow> Inr (Dashboard_Name d))
      else if resource = OrgsResource then loadEntity (organizationKV s) i
      else if resource = TelegrafsResource then loadEntity (telegrafConfigKV s) i
      else loadEntity (userKV s) i)"

section \<open>Notions used to state the properties\<close>




text \<open>
  An example state: one dashboard with two cells and the views of the cells, a value that
  is not a dashboard, and one entity of each other named kind.
\<close>

definition cellA :: Cell where "cellA = \<lparr>Cell_ID = 10, ViewID = 20\<rparr>"
definition cellB :: Cell where "cellB = \<lparr>Cell_ID = 11, ViewID = 21\<rparr>"

definition dashboard1 :: "unit Dashboard" where
  "dashboard1 =
     \<lparr>Dashboard_ID = 1, Dashboard_Name = ''dashboard1'', Dashboard_Description = '''',
      Cells = [cellA, cellB], Meta = \<lparr>CreatedAt = 5, UpdatedAt = 5\<rparr>\<rparr>"

definition service1 :: "(unit, unit) Service" where
  "service1 =
     \<lparr>dashboardKV = [1 \<mapsto> DashboardV dashboard1, 2 \<mapsto> OtherV ''string''],
      viewKV = [20 \<mapsto> \<lparr>View_ID = 20\<rparr>, 21 \<mapsto> \<lparr>View_ID = 21\<rparr>],
      bucketKV = [1 \<mapsto> \<lparr>Entity_ID = 1, Entity_Name = ''b1''\<rparr>],
      organizationKV = [1 \<mapsto> \<lparr>Entity_ID = 1, Entity_Name = ''o1''\<rparr>],
      telegrafConfigKV = [1 \<mapsto> \<lparr>Entity_ID = 1, Entity_Name = ''telegraf1''\<rparr>],
      userKV = [1 \<mapsto> \<lparr>Entity_ID = 1, Entity_Name = ''user1''\<rparr>],
      labels = (),
      IDGenerator = (\<lambda>n. 100 + of_nat n),
      idCalls = 0,
      timeFn = (\<lambda>n. 1000 + int n),
      timeCalls = 0\<rparr>"

text \<open>A validation error of a patch, for the examples.\<close>

definition noAttribute :: error where
  "noAttribute = Error EInvalid ''must update at least one attribute'' '''' NilErr"

text \<open>
  A proposed cell is rejected against the attached cells when its ID is the invalid ID, when
  its ID is not the ID of an attached cell, or when its view is not the view of the
  attached cell with its ID.
\<close>

definition rejectedCell :: "'c Cell_scheme list \<Rightarrow> 'c Cell_scheme \<Rightarrow> bool" where
  "rejectedCell attached c \<longleftrightarrow>
     \<not> Valid (Cell_ID c) \<or>
     Cell_ID c \<notin> Cell_ID ` set attached \<or>
     (case cellsByID attached (Cell_ID c) of None \<Rightarrow> False | Some cl \<Rightarrow> ViewID cl \<noteq> ViewID c)"

definition cellX :: Cell where "cellX = \<lparr>Cell_ID = 99, ViewID = 20\<rparr>"

definition failingDeleteLabel :: "unit \<Rightarrow> ID \<Rightarrow> error \<times> unit" where
  "failingDeleteLabel l i = (Opaque ''label store unavailable'', l)"

text \<open>
  A new cell as a caller passes it to \<open>AddDashboardCell\<close>, options that name no view to
  reuse, and a cell patch that passes its validation, for the examples.
\<close>

definition cell0 :: Cell where "cell0 = \<lparr>Cell_ID = 0, ViewID = 0\<rparr>"

definition noUsingView :: AddDashboardCellOptions where "noUsingView = \<lparr>UsingView = 0\<rparr>"

definition validPatch :: "unit CellUpdate" where
  "validPatch = \<lparr>upd_Valid = NilErr, upd_Apply = (\<lambda>c. (NilErr, c))\<rparr>"

text \<open>
  A proposed cell with the invalid ID; and the example state after \<open>PutDashboardCell\<close> has
  attached \<open>cellX\<close>, whose view is the view of \<open>cellA\<close>, to the dashboard.
\<close>

definition zeroCell :: Cell where "zeroCell = \<lparr>Cell_ID = 0, ViewID = 20\<rparr>"



section \<open>Error codes through wrappers\<close>

lemma ErrorCode_wrap:
  "err \<noteq> NilErr \<Longrightarrow> ErrorCode (Error '''' msg op err) = ErrorCode err"
  by simp



lemma loadDashboard_absent:
  "dashboardKV s i = None \<Longrightarrow>
     loadDashboard s i = Inl (Error ENotFound ErrDashboardNotFound '''' NilErr)"
  by (simp add: loadDashboard_def)

lemma loadDashboard_stored:
  "dashboardKV s i = Some (DashboardV d) \<Longrightarrow> loadDashboard s i = Inr d"
  by (simp add: loadDashboard_def)

lemma loadDashboard_other:
  "dashboardKV s i = Some (OtherV t) \<Longrightarrow>
     loadDashboard s i = Inl (Error EInvalid (''type '' @ t @ '' is not a dashboard'') '''' NilErr)"
  by (simp add: loadDashboard_def)

lemma FindDashboardByID_absent:
  "dashboardKV s i = None \<Longrightarrow>
     FindDashboardByID s i =
       Inl (Error '''' '''' (OpPrefix @ OpFindDashboardByID)
              (Error ENotFound ErrDashboardNotFound '''' NilErr))"
  by (simp add: FindDashboardByID_def loadDashboard_absent)

lemma FindDashboardByID_stored:
  "dashboardKV s i = Some (DashboardV d) \<Longrightarrow> FindDashboardByID s i = Inr d"
  by (simp add: FindDashboardByID_def loadDashboard_stored)

lemma FindDashboardByID_other:
  "dashboardKV s i = Some (OtherV t) \<Longrightarrow>
     FindDashboardByID s i =
       Inl (Error '''' '''' (OpPrefix @ OpFindDashboardByID)
              (Error EInvalid (''type '' @ t @ '' is not a dashboard'') '''' NilErr))"
  by (simp add: FindDashboardByID_def loadDashboard_other)

lemma code_distinct [simp]:
  "ENotFound \<noteq> ''''" "EInvalid \<noteq> ''''" "EConflict \<noteq> ''''" "EInternal \<noteq> ''''"
  "EInvalid \<noteq> ENotFound" "EConflict \<noteq> ENotFound" "EInternal \<noteq> ENotFound"
  "EInvalid \<noteq> EConflict"
  by (simp_all add: ENotFound_def EInvalid_def EConflict_def EInternal_def)

lemma FindDashboards_single_absent:
  "dashboardKV s i = None \<Longrightarrow>
     FindDashboards srt visit s \<lparr>IDs = [i]\<rparr> opts = ([], 0, NilErr)"
  by (simp add: FindDashboards_def FindDashboardByID_absent)



section \<open>What the store operations do to a stored dashboard\<close>

lemma PutDashboardWithMeta_eq:
  "PutDashboardWithMeta s d =
     (NilErr, d\<lparr>Meta := (Meta d)\<lparr>UpdatedAt := timeFn s (timeCalls s)\<rparr>\<rparr>,
      s\<lparr>timeCalls := Suc (timeCalls s),
        dashboardKV := (dashboardKV s)(Dashboard_ID d \<mapsto>
          DashboardV (d\<lparr>Meta := (Meta d)\<lparr>UpdatedAt := timeFn s (timeCalls s)\<rparr>\<rparr>))\<rparr>)"
  by (simp add: PutDashboardWithMeta_def PutDashboard_def time_def Let_def)

lemma DeleteView_frame:
  "DeleteView s v = (err, s1) \<Longrightarrow>
     dashboardKV s1 = dashboardKV s \<and> timeFn s1 = timeFn s \<and> timeCalls s1 = timeCalls s \<and>
     IDGenerator s1 = IDGenerator s \<and> idCalls s1 = idCalls s"
  by (auto simp: DeleteView_def split: option.splits)

lemma DeleteView_success:
  "DeleteView s v = (NilErr, s1) \<Longrightarrow> viewKV s1 = (viewKV s)(v := None) \<and> viewKV s v \<noteq> None"
  by (auto simp: DeleteView_def split: option.splits)

lemma createViewIfNotExists_frame:
  "createViewIfNotExists s cell opts = (err, cell1, s1) \<Longrightarrow>
     dashboardKV s1 = dashboardKV s \<and> timeFn s1 = timeFn s \<and> timeCalls s1 = timeCalls s \<and>
     Cell_ID cell1 = Cell_ID cell"
  by (auto simp: createViewIfNotExists_def PutView_def newID_def split: option.splits if_splits)

lemma createViewIfNotExists_success:
  "createViewIfNotExists s cell opts = (NilErr, cell1, s1) \<Longrightarrow>
     viewKV s1 (ViewID cell1) \<noteq> None \<and> (\<forall>k. k \<noteq> ViewID cell1 \<longrightarrow> viewKV s1 k = viewKV s k)"
  by (auto simp: createViewIfNotExists_def PutView_def newID_def split: option.splits if_splits)

lemma newID_frame:
  "newID s = (i, s1) \<Longrightarrow>
     i = IDGenerator s (idCalls s) \<and> dashboardKV s1 = dashboardKV s \<and> viewKV s1 = viewKV s \<and>
     timeFn s1 = timeFn s \<and> timeCalls s1 = timeCalls s"
  by (auto simp: newID_def)

lemma AddDashboardCell_success:
  assumes stored: "dashboardKV s i = Some (DashboardV d)"
    and add: "AddDashboardCell s i cell opts = (NilErr, cell1, s1)"
  shows "dashboardKV s1 =
           (dashboardKV s)(Dashboard_ID d \<mapsto> DashboardV (d\<lparr>Cells := Cells d @ [cell1],
              Meta := (Meta d)\<lparr>UpdatedAt := timeFn s (timeCalls s)\<rparr>\<rparr>))"
    and "Cell_ID cell1 = IDGenerator s (idCalls s)"
    and "viewKV s1 (ViewID cell1) \<noteq> None"
    and "\<forall>k. k \<noteq> ViewID cell1 \<longrightarrow> viewKV s1 k = viewKV s k"
proof -
  obtain ci s0 where n: "newID s = (ci, s0)" by (cases "newID s")
  obtain verr c2 s2 where cv: "createViewIfNotExists s0 (cell\<lparr>Cell_ID := ci\<rparr>) opts = (verr, c2, s2)"
    by (cases "createViewIfNotExists s0 (cell\<lparr>Cell_ID := ci\<rparr>) opts")
  from add have ok: "verr = NilErr" and c: "c2 = cell1"
    and s1: "s1 = snd (snd (PutDashboardWithMeta s2 (d\<lparr>Cells := Cells d @ [c2]\<rparr>)))"
    by (auto simp: AddDashboardCell_def FindDashboardByID_stored [OF stored] n cv Let_def
          PutDashboardWithMeta_eq split: if_splits)
  note f0 = newID_frame [OF n]
  note f2 = createViewIfNotExists_frame [OF cv]
  note v2 = createViewIfNotExists_success [OF cv [unfolded ok]]
  show "dashboardKV s1 =
           (dashboardKV s)(Dashboard_ID d \<mapsto> DashboardV (d\<lparr>Cells := Cells d @ [cell1],
              Meta := (Meta d)\<lparr>UpdatedAt := timeFn s (timeCalls s)\<rparr>\<rparr>))"
    using f0 f2 by (simp add: s1 c PutDashboardWithMeta_eq)
  show "Cell_ID cell1 = IDGenerator s (idCalls s)"
    using f0 f2 c by simp
  show "viewKV s1 (ViewID cell1) \<noteq> None"
    using v2 by (simp add: s1 c PutDashboardWithMeta_eq)
  show "\<forall>k. k \<noteq> ViewID cell1 \<longrightarrow> viewKV s1 k = viewKV s k"
    using v2 f0 by (simp add: s1 c PutDashboardWithMeta_eq)
qed

lemma RemoveDashboardCell_success:
  assumes stored: "dashboardKV s i = Some (DashboardV d)"
    and rm: "RemoveDashboardCell s i cellID = (NilErr, s1)"
  shows "\<exists>idx. cellIndex cellID (Cells d) = Some idx \<and>
           dashboardKV s1 =
             (dashboardKV s)(Dashboard_ID d \<mapsto>
                DashboardV (d\<lparr>Cells := take idx (Cells d) @ drop (Suc idx) (Cells d),
                   Meta := (Meta d)\<lparr>UpdatedAt := timeFn s (timeCalls s)\<rparr>\<rparr>)) \<and>
           viewKV s1 = (viewKV s)(ViewID (Cells d ! idx) := None)"
proof (cases "cellIndex cellID (Cells d)")
  case None
  with rm stored show ?thesis
    by (simp add: RemoveDashboardCell_def FindDashboardByID_stored Let_def)
next
  case (Some idx)
  obtain verr s0 where dv: "DeleteView s (ViewID (Cells d ! idx)) = (verr, s0)"
    by (cases "DeleteView s (ViewID (Cells d ! idx))")
  from rm have ok: "verr = NilErr"
    and s1: "s1 = snd (snd (PutDashboardWithMeta s0
               (d\<lparr>Cells := take idx (Cells d) @ drop (Suc idx) (Cells d)\<rparr>)))"
    by (auto simp: RemoveDashboardCell_def FindDashboardByID_stored [OF stored] Some dv Let_def
          PutDashboardWithMeta_eq split: if_splits)
  note f = DeleteView_frame [OF dv]
  note v = DeleteView_success [OF dv [unfolded ok]]
  from f v have "dashboardKV s1 =
             (dashboardKV s)(Dashboard_ID d \<mapsto>
                DashboardV (d\<lparr>Cells := take idx (Cells d) @ drop (Suc idx) (Cells d),
                   Meta := (Meta d)\<lparr>UpdatedAt := timeFn s (timeCalls s)\<rparr>\<rparr>)) \<and>
           viewKV s1 = (viewKV s)(ViewID (Cells d ! idx) := None)"
    by (simp add: s1 PutDashboardWithMeta_eq)
  with Some show ?thesis by simp
qed

lemma PutDashboardCell_eq:
  assumes stored: "dashboardKV s i = Some (DashboardV d)"
  shows "PutDashboardCell s i cell =
     (NilErr, s\<lparr>viewKV := (viewKV s)(ViewID cell \<mapsto> \<lparr>View_ID = ViewID cell\<rparr>),
                dashboardKV := (dashboardKV s)(Dashboard_ID d \<mapsto>
                   DashboardV (d\<lparr>Cells := Cells d @ [cell]\<rparr>))\<rparr>)"
  by (simp add: PutDashboardCell_def FindDashboardByID_stored [OF stored] PutView_def
        PutDashboard_def Let_def)

lemma service1_stored:
  "dashboardKV service1 (Dashboard_ID dashboard1) = Some (DashboardV dashboard1)"
  by (simp add: service1_def dashboard1_def)

lemma dashboard1_cells: "Cells dashboard1 = [cellA, cellB]"
  by (simp add: dashboard1_def)

lemma UpdateDashboardCell_success:
  assumes stored: "dashboardKV s (Dashboard_ID d) = Some (DashboardV d)"
    and up: "UpdateDashboardCell s (Dashboard_ID d) cellID upd = (Inr cell1, s1)"
  shows "\<exists>idx. cellIndex cellID (Cells d) = Some idx \<and>
           upd_Apply upd (Cells d ! idx) = (NilErr, cell1) \<and>
           dashboardKV s1 =
             (dashboardKV s)(Dashboard_ID d \<mapsto>
                DashboardV (d\<lparr>Cells := (Cells d)[idx := cell1],
                   Meta := (Meta d)\<lparr>UpdatedAt := timeFn s (timeCalls s)\<rparr>\<rparr>))"
proof (cases "cellIndex cellID (Cells d)")
  case None
  with up stored show ?thesis
    by (simp add: UpdateDashboardCell_def FindDashboardByID_stored Let_def split: if_splits)
next
  case (Some idx)
  obtain aerr c where ap: "upd_Apply upd (Cells d ! idx) = (aerr, c)"
    by (cases "upd_Apply upd (Cells d ! idx)")
  from up have "aerr = NilErr \<and> c = cell1 \<and> dashboardKV s1 =
             (dashboardKV s)(Dashboard_ID d \<mapsto>
                DashboardV (d\<lparr>Cells := (Cells d)[idx := cell1],
                   Meta := (Meta d)\<lparr>UpdatedAt := timeFn s (timeCalls s)\<rparr>\<rparr>))"
    by (auto simp: UpdateDashboardCell_def FindDashboardByID_stored [OF stored] Some ap Let_def
          PutDashboardWithMeta_eq split: if_splits)
  with Some ap show ?thesis by simp
qed

section \<open>Finding dashboards by a single ID\<close>

lemma FindDashboards_single_stored:
  "dashboardKV s i = Some (DashboardV d) \<Longrightarrow>
     FindDashboards srt visit s \<lparr>IDs = [i]\<rparr> opts = ([d], 1, NilErr)"
  by (simp add: FindDashboards_def FindDashboardByID_stored)

lemma FindDashboards_single_delegates:
  "FindDashboards srt visit s \<lparr>IDs = [i]\<rparr> opts =
     (case FindDashboardByID s i of
        Inr d \<Rightarrow> ([d], 1, NilErr)
      | Inl err \<Rightarrow>
          if ErrorCode err = ENotFound then ([], 0, NilErr)
          else ([], 0, Error '''' '''' (OpPrefix @ OpFindDashboards) err))"
  by (simp add: FindDashboards_def split: sum.splits)

text \<open>
  C5. \<open>FindDashboards\<close> with exactly one ID in the filter delegates to \<open>FindDashboardByID\<close>,
  whatever the state of the store: a dashboard found is returned as a one-element sequence
  with count 1; an error with code \<open>NotFound\<close> (the ID is unknown) gives the empty sequence,
  count 0 and no error; any other error is returned to the caller, wrapped with the label of
  \<open>FindDashboards\<close>. The only other error is the \<open>Invalid\<close> of a value in the map that is not
  a dashboard, and the wrapped error keeps that code.
\<close>

theorem FindDashboards_single_ID:
  "FindDashboards srt visit s \<lparr>IDs = [i]\<rparr> opts =
     (case FindDashboardByID s i of
        Inr d \<Rightarrow> ([d], 1, NilErr)
      | Inl err \<Rightarrow>
          if ErrorCode err = ENotFound then ([], 0, NilErr)
          else ([], 0, Error '''' '''' (OpPrefix @ OpFindDashboards) err)) \<and>
   (dashboardKV s i = None \<longrightarrow>
      FindDashboards srt visit s \<lparr>IDs = [i]\<rparr> opts = ([], 0, NilErr)) \<and>
   (\<forall>d. dashboardKV s i = Some (DashboardV d) \<longrightarrow>
      FindDashboards srt visit s \<lparr>IDs = [i]\<rparr> opts = ([d], 1, NilErr)) \<and>
   (\<forall>t. dashboardKV s i = Some (OtherV t) \<longrightarrow>
      (\<exists>err. FindDashboardByID s i = Inl err \<and> ErrorCode err = EInvalid \<and>
         FindDashboards srt visit s \<lparr>IDs = [i]\<rparr> opts =
           ([], 0, Error '''' '''' (OpPrefix @ OpFindDashboards) err) \<and>
         ErrorCode (Error '''' '''' (OpPrefix @ OpFindDashboards) err) = EInvalid))"
proof (intro conjI allI impI)
  show "FindDashboards srt visit s \<lparr>IDs = [i]\<rparr> opts =
     (case FindDashboardByID s i of
        Inr d \<Rightarrow> ([d], 1, NilErr)
      | Inl err \<Rightarrow>
          if ErrorCode err = ENotFound then ([], 0, NilErr)
          else ([], 0, Error '''' '''' (OpPrefix @ OpFindDashboards) err))"
    by (rule FindDashboards_single_delegates)
next
  assume "dashboardKV s i = None"
  then show "FindDashboards srt visit s \<lparr>IDs = [i]\<rparr> opts = ([], 0, NilErr)"
    by (rule FindDashboards_single_absent)
next
  fix d assume "dashboardKV s i = Some (DashboardV d)"
  then show "FindDashboards srt visit s \<lparr>IDs = [i]\<rparr> opts = ([d], 1, NilErr)"
    by (rule FindDashboards_single_stored)
next
  fix t assume other: "dashboardKV s i = Some (OtherV t)"
  show "\<exists>err. FindDashboardByID s i = Inl err \<and> ErrorCode err = EInvalid \<and>
         FindDashboards srt visit s \<lparr>IDs = [i]\<rparr> opts =
           ([], 0, Error '''' '''' (OpPrefix @ OpFindDashboards) err) \<and>
         ErrorCode (Error '''' '''' (OpPrefix @ OpFindDashboards) err) = EInvalid"
    by (simp add: FindDashboards_single_delegates FindDashboardByID_other [OF other])
qed

theorem FindDashboards_single_ID_witness:
  "dashboardKV service1 7 = None \<and>
   FindDashboards (\<lambda>by ds. ds) [] service1 \<lparr>IDs = [7]\<rparr> \<lparr>SortBy = ''''\<rparr> = ([], 0, NilErr) \<and>
   dashboardKV service1 1 = Some (DashboardV dashboard1) \<and>
   FindDashboards (\<lambda>by ds. ds) [] service1 \<lparr>IDs = [1]\<rparr> \<lparr>SortBy = ''''\<rparr>
     = ([dashboard1], 1, NilErr) \<and>
   dashboardKV service1 2 = Some (OtherV ''string'') \<and>
   ErrorCode (snd (snd (FindDashboards (\<lambda>by ds. ds) [] service1 \<lparr>IDs = [2]\<rparr> \<lparr>SortBy = ''''\<rparr>)))
     = EInvalid"
proof -
  have h1: "dashboardKV service1 7 = None"
    and h2: "dashboardKV service1 1 = Some (DashboardV dashboard1)"
    and h3: "dashboardKV service1 2 = Some (OtherV ''string'')"
    by (simp_all add: service1_def)
  note t = FindDashboards_single_ID [of "\<lambda>by ds. ds" "[]" service1 _ "\<lparr>SortBy = ''''\<rparr>"]
  from t [of 7] h1
  have r1: "FindDashboards (\<lambda>by ds. ds) [] service1 \<lparr>IDs = [7]\<rparr> \<lparr>SortBy = ''''\<rparr> = ([], 0, NilErr)"
    by blast
  from t [of 1] h2
  have r2: "FindDashboards (\<lambda>by ds. ds) [] service1 \<lparr>IDs = [1]\<rparr> \<lparr>SortBy = ''''\<rparr>
     = ([dashboard1], 1, NilErr)"
    by blast
  from t [of 2] h3
  have r3: "ErrorCode (snd (snd (FindDashboards (\<lambda>by ds. ds) [] service1 \<lparr>IDs = [2]\<rparr> \<lparr>SortBy = ''''\<rparr>)))
     = EInvalid"
    by auto
  from h1 h2 h3 r1 r2 r3 show ?thesis by blast
qed

section \<open>Validation before lookup\<close>

text \<open>
  C10. \<open>UpdateDashboard\<close> and \<open>UpdateDashboardCell\<close> validate the patch before they look the
  dashboard up: for every state of the store, every dashboard ID and cell ID (existing or
  not) and every patch whose validation fails, the call returns the validation error, wrapped
  with the label of the operation and with the same code, and the state is unchanged.
\<close>

theorem Update_validates_first:
  "(upd_Valid upd \<noteq> NilErr \<longrightarrow>
      UpdateDashboard s i upd =
        (Inl (Error '''' '''' (OpPrefix @ OpUpdateDashboard) (upd_Valid upd)), s) \<and>
      ErrorCode (Error '''' '''' (OpPrefix @ OpUpdateDashboard) (upd_Valid upd))
        = ErrorCode (upd_Valid upd)) \<and>
   (upd_Valid cupd \<noteq> NilErr \<longrightarrow>
      UpdateDashboardCell s i cellID cupd =
        (Inl (Error '''' '''' (OpPrefix @ OpUpdateDashboardCell) (upd_Valid cupd)), s) \<and>
      ErrorCode (Error '''' '''' (OpPrefix @ OpUpdateDashboardCell) (upd_Valid cupd))
        = ErrorCode (upd_Valid cupd))"
  by (simp add: UpdateDashboard_def UpdateDashboardCell_def)

theorem Update_validates_first_witness:
  "upd_Valid \<lparr>upd_Valid = noAttribute, upd_Apply = (\<lambda>d :: unit Dashboard. (NilErr, d))\<rparr> \<noteq> NilErr \<and>
   upd_Valid \<lparr>upd_Valid = noAttribute, upd_Apply = (\<lambda>c :: Cell. (NilErr, c))\<rparr> \<noteq> NilErr \<and>
   dashboardKV service1 7 = None \<and>
   UpdateDashboard service1 7 \<lparr>upd_Valid = noAttribute, upd_Apply = (\<lambda>d. (NilErr, d))\<rparr>
     = (Inl (Error '''' '''' (OpPrefix @ OpUpdateDashboard) noAttribute), service1) \<and>
   UpdateDashboardCell service1 7 10 \<lparr>upd_Valid = noAttribute, upd_Apply = (\<lambda>c. (NilErr, c))\<rparr>
     = (Inl (Error '''' '''' (OpPrefix @ OpUpdateDashboardCell) noAttribute), service1) \<and>
   ErrorCode (Error '''' '''' (OpPrefix @ OpUpdateDashboard) noAttribute) = EInvalid"
proof -
  let ?u = "\<lparr>upd_Valid = noAttribute, upd_Apply = (\<lambda>d :: unit Dashboard. (NilErr, d))\<rparr>"
  let ?c = "\<lparr>upd_Valid = noAttribute, upd_Apply = (\<lambda>c :: Cell. (NilErr, c))\<rparr>"
  have h: "upd_Valid ?u \<noteq> NilErr" "upd_Valid ?c \<noteq> NilErr" "dashboardKV service1 7 = None"
    by (simp_all add: noAttribute_def service1_def)
  have c: "ErrorCode noAttribute = EInvalid" by (simp add: noAttribute_def)
  from Update_validates_first [of ?u service1 7 ?c 10] h c show ?thesis by simp
qed

section \<open>Replacing the cells of a dashboard\<close>

lemma fold_cells_dom:
  "dom (fold (\<lambda>cell ids. ids(Cell_ID cell \<mapsto> cell)) cells m) = dom m \<union> Cell_ID ` set cells"
  by (induction cells arbitrary: m) auto

lemma cellsByID_dom: "dom (cellsByID cells) = Cell_ID ` set cells"
  by (simp add: cellsByID_def fold_cells_dom)

lemma cellsByID_None: "cellsByID cells i = None \<longleftrightarrow> i \<notin> Cell_ID ` set cells"
  using cellsByID_dom [of cells] by (metis domIff)

lemma rejectedCell_iff:
  "rejectedCell attached c \<longleftrightarrow>
     \<not> (Valid (Cell_ID c) \<and>
        (\<exists>cl. cellsByID attached (Cell_ID c) = Some cl \<and> ViewID cl = ViewID c))"
  using cellsByID_None [of attached "Cell_ID c"]
  by (auto simp: rejectedCell_def split: option.splits)

lemma validateCells_NilErr_iff:
  "validateCells op (cellsByID attached) cs = NilErr \<longleftrightarrow> (\<forall>c\<in>set cs. \<not> rejectedCell attached c)"
  by (induction cs) (auto simp: rejectedCell_iff split: option.splits)

lemma validateCells_accepted_prefix:
  "\<forall>p\<in>set pre. \<not> rejectedCell attached p \<Longrightarrow>
     validateCells op (cellsByID attached) (pre @ cs) = validateCells op (cellsByID attached) cs"
  by (induction pre) (auto simp: rejectedCell_iff split: option.splits)

lemma ReplaceDashboardCells_stored:
  assumes stored: "dashboardKV s i = Some (DashboardV d)"
  shows "ReplaceDashboardCells s i cs =
     (if validateCells (OpPrefix @ OpReplaceDashboardCells) (cellsByID (Cells d)) cs \<noteq> NilErr
      then (validateCells (OpPrefix @ OpReplaceDashboardCells) (cellsByID (Cells d)) cs, s)
      else (NilErr,
            s\<lparr>timeCalls := Suc (timeCalls s),
              dashboardKV := (dashboardKV s)(Dashboard_ID d \<mapsto>
                DashboardV (d\<lparr>Cells := cs,
                  Meta := (Meta d)\<lparr>UpdatedAt := timeFn s (timeCalls s)\<rparr>\<rparr>))\<rparr>))"
  by (simp add: ReplaceDashboardCells_def FindDashboardByID_stored [OF stored] Let_def
        PutDashboardWithMeta_eq)





text \<open>
  C1. \<open>ReplaceDashboardCells\<close> validates every proposed cell before it changes anything. For a
  dashboard \<open>d\<close> stored under its ID and a list \<open>cs\<close> of proposed cells: if some cell of \<open>cs\<close> is
  rejected (invalid ID, ID not among the cells of \<open>d\<close>, or a view other than that of the
  attached cell), the call returns an error and the whole state is unchanged: the cells of
  \<open>d\<close>, its \<open>Meta\<close>, the view store. If no cell of \<open>cs\<close> is rejected, the call returns no
  error, and the state differs by one reading of the clock and by the dashboard stored:
  \<open>d\<close> with \<open>cs\<close> as its cells and the clock's value as \<open>UpdatedAt\<close>.
\<close>

theorem ReplaceDashboardCells_validate_then_commit:
  "dashboardKV s (Dashboard_ID d) = Some (DashboardV d) \<Longrightarrow>
     ((\<exists>c\<in>set cs. rejectedCell (Cells d) c) \<longrightarrow>
        fst (ReplaceDashboardCells s (Dashboard_ID d) cs) \<noteq> NilErr \<and>
        snd (ReplaceDashboardCells s (Dashboard_ID d) cs) = s) \<and>
     ((\<forall>c\<in>set cs. \<not> rejectedCell (Cells d) c) \<longrightarrow>
        ReplaceDashboardCells s (Dashboard_ID d) cs =
          (NilErr,
           s\<lparr>timeCalls := Suc (timeCalls s),
             dashboardKV := (dashboardKV s)(Dashboard_ID d \<mapsto>
               DashboardV (d\<lparr>Cells := cs,
                 Meta := (Meta d)\<lparr>UpdatedAt := timeFn s (timeCalls s)\<rparr>\<rparr>))\<rparr>))"
proof -
  assume stored: "dashboardKV s (Dashboard_ID d) = Some (DashboardV d)"
  let ?v = "validateCells (OpPrefix @ OpReplaceDashboardCells) (cellsByID (Cells d)) cs"
  have v: "?v = NilErr \<longleftrightarrow> (\<forall>c\<in>set cs. \<not> rejectedCell (Cells d) c)"
    by (rule validateCells_NilErr_iff)
  show ?thesis
  proof (cases "?v = NilErr")
    case True
    with v show ?thesis by (simp add: ReplaceDashboardCells_stored [OF stored])
  next
    case False
    with v show ?thesis by (simp add: ReplaceDashboardCells_stored [OF stored])
  qed
qed

theorem ReplaceDashboardCells_validate_then_commit_witness:
  "dashboardKV service1 (Dashboard_ID dashboard1) = Some (DashboardV dashboard1) \<and>
   Cells dashboard1 = [cellA, cellB] \<and>
   rejectedCell (Cells dashboard1) cellX \<and>
   fst (ReplaceDashboardCells service1 (Dashboard_ID dashboard1) [cellA, cellX]) \<noteq> NilErr \<and>
   snd (ReplaceDashboardCells service1 (Dashboard_ID dashboard1) [cellA, cellX]) = service1 \<and>
   \<not> rejectedCell (Cells dashboard1) cellA \<and>
   \<not> rejectedCell (Cells dashboard1) cellB \<and>
   fst (ReplaceDashboardCells service1 (Dashboard_ID dashboard1) [cellB, cellA]) = NilErr \<and>
   dashboardKV (snd (ReplaceDashboardCells service1 (Dashboard_ID dashboard1) [cellB, cellA])) 1 =
     Some (DashboardV (dashboard1\<lparr>Cells := [cellB, cellA],
                                   Meta := \<lparr>CreatedAt = 5, UpdatedAt = 1000\<rparr>\<rparr>))"
proof -
  have stored: "dashboardKV service1 (Dashboard_ID dashboard1) = Some (DashboardV dashboard1)"
    by (simp add: service1_def dashboard1_def)
  have cells: "Cells dashboard1 = [cellA, cellB]" by (simp add: dashboard1_def)
  have x: "rejectedCell (Cells dashboard1) cellX"
    by (simp add: cells rejectedCell_def cellA_def cellB_def cellX_def)
  have a: "\<not> rejectedCell (Cells dashboard1) cellA"
    by (simp add: cells rejectedCell_def cellsByID_def cellA_def cellB_def Valid_def)
  have b: "\<not> rejectedCell (Cells dashboard1) cellB"
    by (simp add: cells rejectedCell_def cellsByID_def cellA_def cellB_def Valid_def)
  have t: "timeFn service1 (timeCalls service1) = 1000" "Meta dashboard1 = \<lparr>CreatedAt = 5, UpdatedAt = 5\<rparr>"
    "Dashboard_ID dashboard1 = 1"
    by (simp_all add: service1_def dashboard1_def)
  from ReplaceDashboardCells_validate_then_commit [OF stored, of "[cellA, cellX]"] x
  have r1: "fst (ReplaceDashboardCells service1 (Dashboard_ID dashboard1) [cellA, cellX]) \<noteq> NilErr"
    "snd (ReplaceDashboardCells service1 (Dashboard_ID dashboard1) [cellA, cellX]) = service1"
    by simp_all
  from ReplaceDashboardCells_validate_then_commit [OF stored, of "[cellB, cellA]"] a b
  have "ReplaceDashboardCells service1 (Dashboard_ID dashboard1) [cellB, cellA] =
          (NilErr,
           service1\<lparr>timeCalls := Suc (timeCalls service1),
             dashboardKV := (dashboardKV service1)(Dashboard_ID dashboard1 \<mapsto>
               DashboardV (dashboard1\<lparr>Cells := [cellB, cellA],
                 Meta := (Meta dashboard1)\<lparr>UpdatedAt := timeFn service1 (timeCalls service1)\<rparr>\<rparr>))\<rparr>)"
    by simp
  then have r2: "fst (ReplaceDashboardCells service1 (Dashboard_ID dashboard1) [cellB, cellA]) = NilErr"
    "dashboardKV (snd (ReplaceDashboardCells service1 (Dashboard_ID dashboard1) [cellB, cellA])) 1 =
     Some (DashboardV (dashboard1\<lparr>Cells := [cellB, cellA],
                                   Meta := \<lparr>CreatedAt = 5, UpdatedAt = 1000\<rparr>\<rparr>))"
    by (simp_all add: t)
  from stored cells x a b r1 r2 show ?thesis by blast
qed

text \<open>
  C2. The errors of \<open>ReplaceDashboardCells\<close>. The proposed cells are checked in list order,
  each by three checks in a fixed order, and the call returns at the first check that fails;
  so, for a stored dashboard and the first cell \<open>c\<close> of the list that fails a check (every
  cell before it passes): if the ID of \<open>c\<close> is the invalid ID the call
  fails with code \<open>Invalid\<close> and message \<open>cannot provide empty cell id\<close>; otherwise, if the ID
  of \<open>c\<close> is not among the attached cells, it fails with code \<open>Conflict\<close> and message \<open>cannot
  replace cells that were not already present\<close>; otherwise, if the view of \<open>c\<close> differs from
  the view of the attached cell with its ID, it fails with code \<open>Invalid\<close> and message
  \<open>cannot update view id in replace\<close>. In each case the state is unchanged.
\<close>

theorem ReplaceDashboardCells_errors:
  "dashboardKV s i = Some (DashboardV d) \<Longrightarrow>
   \<forall>p\<in>set pre. \<not> rejectedCell (Cells d) p \<Longrightarrow>
     (\<not> Valid (Cell_ID c) \<longrightarrow>
        ReplaceDashboardCells s i (pre @ c # post) =
          (Error EInvalid ''cannot provide empty cell id''
             (OpPrefix @ OpReplaceDashboardCells) NilErr, s)) \<and>
     (Valid (Cell_ID c) \<and> Cell_ID c \<notin> Cell_ID ` set (Cells d) \<longrightarrow>
        ReplaceDashboardCells s i (pre @ c # post) =
          (Error EConflict ''cannot replace cells that were not already present''
             (OpPrefix @ OpReplaceDashboardCells) NilErr, s)) \<and>
     (\<forall>cl. Valid (Cell_ID c) \<and> cellsByID (Cells d) (Cell_ID c) = Some cl \<and>
           ViewID cl \<noteq> ViewID c \<longrightarrow>
        ReplaceDashboardCells s i (pre @ c # post) =
          (Error EInvalid ''cannot update view id in replace''
             (OpPrefix @ OpReplaceDashboardCells) NilErr, s))"
proof -
  assume stored: "dashboardKV s i = Some (DashboardV d)"
    and pre: "\<forall>p\<in>set pre. \<not> rejectedCell (Cells d) p"
  have none: "Cell_ID c \<notin> Cell_ID ` set (Cells d) \<Longrightarrow> cellsByID (Cells d) (Cell_ID c) = None"
    by (simp add: cellsByID_None)
  show ?thesis
    by (auto simp: ReplaceDashboardCells_stored [OF stored]
          validateCells_accepted_prefix [OF pre] none)
qed

theorem ReplaceDashboardCells_errors_witness:
  "dashboardKV service1 1 = Some (DashboardV dashboard1) \<and>
   \<not> rejectedCell (Cells dashboard1) cellA \<and>
   \<not> Valid (Cell_ID \<lparr>Cell_ID = 0, ViewID = 20\<rparr>) \<and>
   ReplaceDashboardCells service1 1 ([cellA] @ \<lparr>Cell_ID = 0, ViewID = 20\<rparr> # [cellX]) =
     (Error EInvalid ''cannot provide empty cell id''
        (OpPrefix @ OpReplaceDashboardCells) NilErr, service1) \<and>
   Valid (Cell_ID cellX) \<and> Cell_ID cellX \<notin> Cell_ID ` set (Cells dashboard1) \<and>
   ReplaceDashboardCells service1 1 ([cellA] @ cellX # []) =
     (Error EConflict ''cannot replace cells that were not already present''
        (OpPrefix @ OpReplaceDashboardCells) NilErr, service1) \<and>
   Valid (Cell_ID \<lparr>Cell_ID = 11, ViewID = 20\<rparr>) \<and>
   cellsByID (Cells dashboard1) (Cell_ID \<lparr>Cell_ID = 11, ViewID = 20\<rparr>) = Some cellB \<and>
   ViewID cellB \<noteq> ViewID \<lparr>Cell_ID = 11, ViewID = 20\<rparr> \<and>
   ReplaceDashboardCells service1 1 ([cellA] @ \<lparr>Cell_ID = 11, ViewID = 20\<rparr> # []) =
     (Error EInvalid ''cannot update view id in replace''
        (OpPrefix @ OpReplaceDashboardCells) NilErr, service1)"
proof -
  have stored: "dashboardKV service1 1 = Some (DashboardV dashboard1)"
    by (simp add: service1_def)
  have cells: "Cells dashboard1 = [cellA, cellB]" by (simp add: dashboard1_def)
  have a: "\<not> rejectedCell (Cells dashboard1) cellA"
    by (simp add: cells rejectedCell_def cellsByID_def cellA_def cellB_def Valid_def)
  then have pre: "\<forall>p\<in>set [cellA]. \<not> rejectedCell (Cells dashboard1) p" by simp
  have h1: "\<not> Valid (Cell_ID \<lparr>Cell_ID = 0, ViewID = 20\<rparr>)" by (simp add: Valid_def)
  have h2: "Valid (Cell_ID cellX)" "Cell_ID cellX \<notin> Cell_ID ` set (Cells dashboard1)"
    by (simp_all add: cells Valid_def cellX_def cellA_def cellB_def)
  have h3: "Valid (Cell_ID \<lparr>Cell_ID = 11, ViewID = 20\<rparr>)"
    "cellsByID (Cells dashboard1) (Cell_ID \<lparr>Cell_ID = 11, ViewID = 20\<rparr>) = Some cellB"
    "ViewID cellB \<noteq> ViewID \<lparr>Cell_ID = 11, ViewID = 20\<rparr>"
    by (simp_all add: cells Valid_def cellsByID_def cellA_def cellB_def)
  note t = ReplaceDashboardCells_errors [OF stored pre]
  from t [of "\<lparr>Cell_ID = 0, ViewID = 20\<rparr>" "[cellX]"] h1
  have r1: "ReplaceDashboardCells service1 1 ([cellA] @ \<lparr>Cell_ID = 0, ViewID = 20\<rparr> # [cellX]) =
     (Error EInvalid ''cannot provide empty cell id''
        (OpPrefix @ OpReplaceDashboardCells) NilErr, service1)"
    by blast
  from t [of cellX "[]"] h2
  have r2: "ReplaceDashboardCells service1 1 ([cellA] @ cellX # []) =
     (Error EConflict ''cannot replace cells that were not already present''
        (OpPrefix @ OpReplaceDashboardCells) NilErr, service1)"
    by blast
  from t [of "\<lparr>Cell_ID = 11, ViewID = 20\<rparr>" "[]"] h3
  have r3: "ReplaceDashboardCells service1 1 ([cellA] @ \<lparr>Cell_ID = 11, ViewID = 20\<rparr> # []) =
     (Error EInvalid ''cannot update view id in replace''
        (OpPrefix @ OpReplaceDashboardCells) NilErr, service1)"
    by blast
  from stored a h1 h2 h3 r1 r2 r3 show ?thesis by blast
qed

lemma service1_stored_1: "dashboardKV service1 1 = Some (DashboardV dashboard1)"
  by (simp add: service1_def)

lemma cellsByID_dashboard1:
  "cellsByID (Cells dashboard1) = [10 \<mapsto> cellA, 11 \<mapsto> cellB]"
  by (simp add: dashboard1_def cellsByID_def cellA_def cellB_def)

text \<open>
  The order matters. In the list \<open>[cellX, zeroCell]\<close> the second cell has the invalid ID, and
  the call fails at the first cell, with \<open>Conflict\<close>; in the list \<open>[zeroCell]\<close> the ID of the
  cell is not among the attached cells, and the call fails at the first check, with
  \<open>Invalid\<close>.
\<close>

theorem ReplaceDashboardCells_errors_counterexample:
  "dashboardKV service1 1 = Some (DashboardV dashboard1) \<and>
   zeroCell \<in> set [cellX, zeroCell] \<and>
   \<not> Valid (Cell_ID zeroCell) \<and>
   ReplaceDashboardCells service1 1 [cellX, zeroCell] =
     (Error EConflict ''cannot replace cells that were not already present''
        (OpPrefix @ OpReplaceDashboardCells) NilErr, service1) \<and>
   ErrorCode (fst (ReplaceDashboardCells service1 1 [cellX, zeroCell])) = EConflict \<and>
   EConflict \<noteq> EInvalid \<and>
   Msg (fst (ReplaceDashboardCells service1 1 [cellX, zeroCell]))
     \<noteq> ''cannot provide empty cell id'' \<and>
   zeroCell \<in> set [zeroCell] \<and>
   Cell_ID zeroCell \<notin> Cell_ID ` set (Cells dashboard1) \<and>
   ReplaceDashboardCells service1 1 [zeroCell] =
     (Error EInvalid ''cannot provide empty cell id''
        (OpPrefix @ OpReplaceDashboardCells) NilErr, service1) \<and>
   ErrorCode (fst (ReplaceDashboardCells service1 1 [zeroCell])) = EInvalid"
proof -
  note stored = service1_stored_1
  have z: "\<not> Valid (Cell_ID zeroCell)" by (simp add: zeroCell_def Valid_def)
  have x: "Valid (Cell_ID cellX)" by (simp add: cellX_def Valid_def)
  have nx: "cellsByID (Cells dashboard1) (Cell_ID cellX) = None"
    by (simp add: cellsByID_dashboard1 cellX_def)
  have r1: "ReplaceDashboardCells service1 1 [cellX, zeroCell] =
     (Error EConflict ''cannot replace cells that were not already present''
        (OpPrefix @ OpReplaceDashboardCells) NilErr, service1)"
    by (simp add: ReplaceDashboardCells_stored [OF stored] x nx)
  have r2: "ReplaceDashboardCells service1 1 [zeroCell] =
     (Error EInvalid ''cannot provide empty cell id''
        (OpPrefix @ OpReplaceDashboardCells) NilErr, service1)"
    by (simp add: ReplaceDashboardCells_stored [OF stored] z)
  have n0: "Cell_ID zeroCell \<notin> Cell_ID ` set (Cells dashboard1)"
    by (simp add: dashboard1_def zeroCell_def cellA_def cellB_def)
  show ?thesis
    by (simp add: stored z r1 r2 n0 EConflict_def EInvalid_def)
qed







section \<open>Deleting a dashboard\<close>

lemma DeleteDashboard_stored:
  assumes stored: "dashboardKV s i = Some (DashboardV d)"
  shows "DeleteDashboard deleteLabel s i =
     (if fst (deleteLabel (labels s) i) \<noteq> NilErr
      then Error '''' '''' (OpPrefix @ OpDeleteDashboard) (fst (deleteLabel (labels s) i))
      else NilErr,
      s\<lparr>dashboardKV := (dashboardKV s)(i := None), labels := snd (deleteLabel (labels s) i)\<rparr>)"
  by (simp add: DeleteDashboard_def FindDashboardByID_stored [OF stored] Let_def split_def)

text \<open>
  C6. \<open>DeleteDashboard\<close> on the ID of a stored dashboard removes the dashboard from the map
  and then deletes its labels. Whatever label deletion answers, the state after the call is
  the state before it without the dashboard and with the label state the collaborator left:
  when label deletion fails, its error is returned to the caller, wrapped with the label of
  the operation, and the dashboard is gone all the same, so that \<open>FindDashboardByID\<close> then
  fails with \<open>NotFound\<close>. When \<open>FindDashboardByID\<close> fails (the dashboard does not exist) the
  call returns that error, wrapped, and the state is unchanged.
\<close>

theorem DeleteDashboard_no_rollback:
  "(dashboardKV s i = Some (DashboardV d) \<longrightarrow>
      snd (DeleteDashboard deleteLabel s i) =
        s\<lparr>dashboardKV := (dashboardKV s)(i := None),
          labels := snd (deleteLabel (labels s) i)\<rparr> \<and>
      (fst (deleteLabel (labels s) i) \<noteq> NilErr \<longrightarrow>
         fst (DeleteDashboard deleteLabel s i) =
           Error '''' '''' (OpPrefix @ OpDeleteDashboard) (fst (deleteLabel (labels s) i))) \<and>
      (fst (deleteLabel (labels s) i) = NilErr \<longrightarrow>
         fst (DeleteDashboard deleteLabel s i) = NilErr) \<and>
      (\<exists>err. FindDashboardByID (snd (DeleteDashboard deleteLabel s i)) i = Inl err \<and>
             ErrorCode err = ENotFound)) \<and>
   (\<forall>err. FindDashboardByID s i = Inl err \<longrightarrow>
      DeleteDashboard deleteLabel s i =
        (Error '''' '''' (OpPrefix @ OpDeleteDashboard) err, s)) \<and>
   (dashboardKV s i = None \<longrightarrow>
      fst (DeleteDashboard deleteLabel s i) \<noteq> NilErr \<and>
      ErrorCode (fst (DeleteDashboard deleteLabel s i)) = ENotFound \<and>
      snd (DeleteDashboard deleteLabel s i) = s)"
proof (intro conjI allI impI)
  fix err assume "FindDashboardByID s i = Inl err"
  then show "DeleteDashboard deleteLabel s i =
        (Error '''' '''' (OpPrefix @ OpDeleteDashboard) err, s)"
    by (simp add: DeleteDashboard_def)
next
  assume absent: "dashboardKV s i = None"
  show "fst (DeleteDashboard deleteLabel s i) \<noteq> NilErr"
    by (simp add: DeleteDashboard_def FindDashboardByID_absent [OF absent])
  show "ErrorCode (fst (DeleteDashboard deleteLabel s i)) = ENotFound"
    by (simp add: DeleteDashboard_def FindDashboardByID_absent [OF absent])
  show "snd (DeleteDashboard deleteLabel s i) = s"
    by (simp add: DeleteDashboard_def FindDashboardByID_absent [OF absent])
next
  assume stored: "dashboardKV s i = Some (DashboardV d)"
  note eq = DeleteDashboard_stored [OF stored, of deleteLabel]
  show "snd (DeleteDashboard deleteLabel s i) =
        s\<lparr>dashboardKV := (dashboardKV s)(i := None),
          labels := snd (deleteLabel (labels s) i)\<rparr>"
    by (simp add: eq)
  show "\<exists>err. FindDashboardByID (snd (DeleteDashboard deleteLabel s i)) i = Inl err \<and>
             ErrorCode err = ENotFound"
    by (simp add: eq FindDashboardByID_absent)
  show "fst (DeleteDashboard deleteLabel s i) = NilErr"
    if "fst (deleteLabel (labels s) i) = NilErr"
    using that by (simp add: eq)
  show "fst (DeleteDashboard deleteLabel s i) =
           Error '''' '''' (OpPrefix @ OpDeleteDashboard) (fst (deleteLabel (labels s) i))"
    if "fst (deleteLabel (labels s) i) \<noteq> NilErr"
    using that by (simp add: eq)
qed

theorem DeleteDashboard_no_rollback_witness:
  "dashboardKV service1 1 = Some (DashboardV dashboard1) \<and>
   fst (failingDeleteLabel (labels service1) 1) \<noteq> NilErr \<and>
   fst (DeleteDashboard failingDeleteLabel service1 1) =
     Error '''' '''' (OpPrefix @ OpDeleteDashboard) (Opaque ''label store unavailable'') \<and>
   dashboardKV (snd (DeleteDashboard failingDeleteLabel service1 1)) 1 = None \<and>
   fst ((\<lambda>l i. (NilErr, l)) (labels service1) (1 :: ID)) = NilErr \<and>
   fst (DeleteDashboard (\<lambda>l i. (NilErr, l)) service1 1) = NilErr \<and>
   dashboardKV service1 7 = None \<and>
   ErrorCode (fst (DeleteDashboard failingDeleteLabel service1 7)) = ENotFound \<and>
   snd (DeleteDashboard failingDeleteLabel service1 7) = service1"
proof -
  have h1: "dashboardKV service1 1 = Some (DashboardV dashboard1)"
    and h3: "dashboardKV service1 7 = None"
    by (simp_all add: service1_def)
  have h2: "fst (failingDeleteLabel (labels service1) 1) \<noteq> NilErr"
    "fst (failingDeleteLabel (labels service1) 1) = Opaque ''label store unavailable''"
    by (simp_all add: failingDeleteLabel_def)
  have h4: "fst ((\<lambda>l i. (NilErr, l)) (labels service1) (1 :: ID)) = NilErr" by simp
  from DeleteDashboard_no_rollback [of service1 1 dashboard1 failingDeleteLabel] h1 h2
  have r1: "fst (DeleteDashboard failingDeleteLabel service1 1) =
     Error '''' '''' (OpPrefix @ OpDeleteDashboard) (Opaque ''label store unavailable'')"
    and r2: "dashboardKV (snd (DeleteDashboard failingDeleteLabel service1 1)) 1 = None"
    by simp_all
  from DeleteDashboard_no_rollback [of service1 1 dashboard1 "\<lambda>l i. (NilErr, l)"] h1 h4
  have r3: "fst (DeleteDashboard (\<lambda>l i. (NilErr, l)) service1 1) = NilErr"
    by blast
  from DeleteDashboard_no_rollback [of service1 7 dashboard1 failingDeleteLabel] h3
  have r4: "ErrorCode (fst (DeleteDashboard failingDeleteLabel service1 7)) = ENotFound"
    "snd (DeleteDashboard failingDeleteLabel service1 7) = service1"
    by blast+
  from h1 h2(1) h3 h4 r1 r2 r3 r4 show ?thesis by blast
qed

section \<open>Resolving names\<close>

lemma loadEntity_cases:
  "(kv i = None \<longrightarrow> (\<exists>err. loadEntity kv i = Inl err \<and> ErrorCode err = ENotFound)) \<and>
   (\<forall>e. kv i = Some e \<longrightarrow> loadEntity kv i = Inr (Entity_Name e))"
  by (simp add: loadEntity_def)

lemmas resource_defs =
  AuthorizationsResource_def BucketsResource_def DashboardsResource_def OrgsResource_def
  SourcesResource_def TasksResource_def TelegrafsResource_def UsersResource_def

lemma Name_nameless:
  "Valid i \<Longrightarrow> resource \<in> set namelessResources \<Longrightarrow> Name s resource i = Inr ''''"
  by (auto simp: Name_def namelessResources_def recognizedResources_def)

lemma Name_invalid:
  "\<not> Valid i \<or> resource \<notin> set recognizedResources \<Longrightarrow>
     Name s resource i = Inl (Error EInvalid '''' '''' NilErr)"
  by (auto simp: Name_def)

lemma Name_named:
  assumes "Valid i"
  shows "Name s BucketsResource i = loadEntity (bucketKV s) i"
    and "Name s OrgsResource i = loadEntity (organizationKV s) i"
    and "Name s TelegrafsResource i = loadEntity (telegrafConfigKV s) i"
    and "Name s UsersResource i = loadEntity (userKV s) i"
    and "Name s DashboardsResource i =
           (case FindDashboardByID s i of Inl err \<Rightarrow> Inl err | Inr d \<Rightarrow> Inr (Dashboard_Name d))"
  using assms
  by (simp_all add: Name_def namelessResources_def recognizedResources_def resource_defs)

text \<open>
  C4. \<open>Name\<close>, for every state of the stores. For a kind whose entities have no name
  (authorizations, tasks, sources) and a valid ID it returns the empty string and no error,
  whether or not an entity has that ID. For an invalid ID or a kind that is not recognized it
  fails with \<open>Invalid\<close>. For a named kind (buckets, dashboards, orgs, telegrafs, users) and a
  valid ID it fails with \<open>NotFound\<close> when the store of the kind has no entity under the ID
  and returns the name of the entity when it has one.
\<close>

theorem Name_by_kind:
  "(Valid i \<and> resource \<in> {AuthorizationsResource, TasksResource, SourcesResource} \<longrightarrow>
      Name s resource i = Inr '''') \<and>
   (\<not> Valid i \<or> resource \<notin> set recognizedResources \<longrightarrow>
      (\<exists>err. Name s resource i = Inl err \<and> ErrorCode err = EInvalid)) \<and>
   (Valid i \<longrightarrow>
      (bucketKV s i = None \<longrightarrow>
         (\<exists>err. Name s BucketsResource i = Inl err \<and> ErrorCode err = ENotFound)) \<and>
      (\<forall>e. bucketKV s i = Some e \<longrightarrow> Name s BucketsResource i = Inr (Entity_Name e)) \<and>
      (dashboardKV s i = None \<longrightarrow>
         (\<exists>err. Name s DashboardsResource i = Inl err \<and> ErrorCode err = ENotFound)) \<and>
      (\<forall>d. dashboardKV s i = Some (DashboardV d) \<longrightarrow>
         Name s DashboardsResource i = Inr (Dashboard_Name d)) \<and>
      (organizationKV s i = None \<longrightarrow>
         (\<exists>err. Name s OrgsResource i = Inl err \<and> ErrorCode err = ENotFound)) \<and>
      (\<forall>e. organizationKV s i = Some e \<longrightarrow> Name s OrgsResource i = Inr (Entity_Name e)) \<and>
      (telegrafConfigKV s i = None \<longrightarrow>
         (\<exists>err. Name s TelegrafsResource i = Inl err \<and> ErrorCode err = ENotFound)) \<and>
      (\<forall>e. telegrafConfigKV s i = Some e \<longrightarrow> Name s TelegrafsResource i = Inr (Entity_Name e)) \<and>
      (userKV s i = None \<longrightarrow>
         (\<exists>err. Name s UsersResource i = Inl err \<and> ErrorCode err = ENotFound)) \<and>
      (\<forall>e. userKV s i = Some e \<longrightarrow> Name s UsersResource i = Inr (Entity_Name e)))"
proof (intro conjI impI)
  assume "Valid i \<and> resource \<in> {AuthorizationsResource, TasksResource, SourcesResource}"
  then show "Name s resource i = Inr ''''"
    by (intro Name_nameless) (auto simp: namelessResources_def)
next
  assume "\<not> Valid i \<or> resource \<notin> set recognizedResources"
  then show "\<exists>err. Name s resource i = Inl err \<and> ErrorCode err = EInvalid"
    by (simp add: Name_invalid)
next
  assume v: "Valid i"
  show "\<forall>d. dashboardKV s i = Some (DashboardV d) \<longrightarrow>
         Name s DashboardsResource i = Inr (Dashboard_Name d)"
    by (simp add: Name_named [OF v] FindDashboardByID_stored)
  show "\<exists>err. Name s DashboardsResource i = Inl err \<and> ErrorCode err = ENotFound"
    if "dashboardKV s i = None"
    by (simp add: Name_named [OF v] FindDashboardByID_absent [OF that])
  show "\<exists>err. Name s BucketsResource i = Inl err \<and> ErrorCode err = ENotFound"
    if "bucketKV s i = None"
    using that loadEntity_cases [of "bucketKV s" i] by (simp add: Name_named [OF v])
  show "\<forall>e. bucketKV s i = Some e \<longrightarrow> Name s BucketsResource i = Inr (Entity_Name e)"
    using loadEntity_cases [of "bucketKV s" i] by (simp add: Name_named [OF v])
  show "\<exists>err. Name s OrgsResource i = Inl err \<and> ErrorCode err = ENotFound"
    if "organizationKV s i = None"
    using that loadEntity_cases [of "organizationKV s" i] by (simp add: Name_named [OF v])
  show "\<forall>e. organizationKV s i = Some e \<longrightarrow> Name s OrgsResource i = Inr (Entity_Name e)"
    using loadEntity_cases [of "organizationKV s" i] by (simp add: Name_named [OF v])
  show "\<exists>err. Name s TelegrafsResource i = Inl err \<and> ErrorCode err = ENotFound"
    if "telegrafConfigKV s i = None"
    using that loadEntity_cases [of "telegrafConfigKV s" i] by (simp add: Name_named [OF v])
  show "\<forall>e. telegrafConfigKV s i = Some e \<longrightarrow> Name s TelegrafsResource i = Inr (Entity_Name e)"
    using loadEntity_cases [of "telegrafConfigKV s" i] by (simp add: Name_named [OF v])
  show "\<exists>err. Name s UsersResource i = Inl err \<and> ErrorCode err = ENotFound"
    if "userKV s i = None"
    using that loadEntity_cases [of "userKV s" i] by (simp add: Name_named [OF v])
  show "\<forall>e. userKV s i = Some e \<longrightarrow> Name s UsersResource i = Inr (Entity_Name e)"
    using loadEntity_cases [of "userKV s" i] by (simp add: Name_named [OF v])
qed

theorem Name_by_kind_witness:
  "Valid 1 \<and> TasksResource \<in> {AuthorizationsResource, TasksResource, SourcesResource} \<and>
   Name service1 TasksResource 1 = Inr '''' \<and>
   Name service1 AuthorizationsResource 7 = Inr '''' \<and>
   Name service1 SourcesResource 7 = Inr '''' \<and>
   ''invalid'' \<notin> set recognizedResources \<and>
   (\<exists>err. Name service1 ''invalid'' 1 = Inl err \<and> ErrorCode err = EInvalid) \<and>
   \<not> Valid 0 \<and>
   (\<exists>err. Name service1 DashboardsResource 0 = Inl err \<and> ErrorCode err = EInvalid) \<and>
   Name service1 BucketsResource 1 = Inr ''b1'' \<and>
   Name service1 DashboardsResource 1 = Inr ''dashboard1'' \<and>
   Name service1 OrgsResource 1 = Inr ''o1'' \<and>
   Name service1 TelegrafsResource 1 = Inr ''telegraf1'' \<and>
   Name service1 UsersResource 1 = Inr ''user1'' \<and>
   Valid 7 \<and> bucketKV service1 7 = None \<and> dashboardKV service1 7 = None \<and>
   organizationKV service1 7 = None \<and> telegrafConfigKV service1 7 = None \<and>
   userKV service1 7 = None \<and>
   (\<exists>err. Name service1 BucketsResource 7 = Inl err \<and> ErrorCode err = ENotFound) \<and>
   (\<exists>err. Name service1 DashboardsResource 7 = Inl err \<and> ErrorCode err = ENotFound) \<and>
   (\<exists>err. Name service1 OrgsResource 7 = Inl err \<and> ErrorCode err = ENotFound) \<and>
   (\<exists>err. Name service1 TelegrafsResource 7 = Inl err \<and> ErrorCode err = ENotFound) \<and>
   (\<exists>err. Name service1 UsersResource 7 = Inl err \<and> ErrorCode err = ENotFound)"
proof -
  have v: "Valid 1" "Valid 7" "\<not> Valid 0" by (simp_all add: Valid_def)
  have k: "TasksResource \<in> {AuthorizationsResource, TasksResource, SourcesResource}"
    "AuthorizationsResource \<in> {AuthorizationsResource, TasksResource, SourcesResource}"
    "SourcesResource \<in> {AuthorizationsResource, TasksResource, SourcesResource}"
    by simp_all
  have u: "''invalid'' \<notin> set recognizedResources"
    by (simp add: recognizedResources_def resource_defs)
  have p: "bucketKV service1 1 = Some \<lparr>Entity_ID = 1, Entity_Name = ''b1''\<rparr>"
    "dashboardKV service1 1 = Some (DashboardV dashboard1)"
    "organizationKV service1 1 = Some \<lparr>Entity_ID = 1, Entity_Name = ''o1''\<rparr>"
    "telegrafConfigKV service1 1 = Some \<lparr>Entity_ID = 1, Entity_Name = ''telegraf1''\<rparr>"
    "userKV service1 1 = Some \<lparr>Entity_ID = 1, Entity_Name = ''user1''\<rparr>"
    "Dashboard_Name dashboard1 = ''dashboard1''"
    by (simp_all add: service1_def dashboard1_def)
  have a: "bucketKV service1 7 = None" "dashboardKV service1 7 = None"
    "organizationKV service1 7 = None" "telegrafConfigKV service1 7 = None"
    "userKV service1 7 = None"
    by (simp_all add: service1_def)
  from Name_by_kind [of 1 TasksResource service1] v k
  have r1: "Name service1 TasksResource 1 = Inr ''''" by blast
  from Name_by_kind [of 7 AuthorizationsResource service1] v k
  have r2: "Name service1 AuthorizationsResource 7 = Inr ''''" by blast
  from Name_by_kind [of 7 SourcesResource service1] v k
  have r3: "Name service1 SourcesResource 7 = Inr ''''" by blast
  from Name_by_kind [of 1 "''invalid''" service1] u
  have r4: "\<exists>err. Name service1 ''invalid'' 1 = Inl err \<and> ErrorCode err = EInvalid" by blast
  from Name_by_kind [of 0 DashboardsResource service1] v
  have r5: "\<exists>err. Name service1 DashboardsResource 0 = Inl err \<and> ErrorCode err = EInvalid"
    by blast
  from Name_by_kind [of 1 TasksResource service1] v p
  have r6: "Name service1 BucketsResource 1 = Inr ''b1''"
    "Name service1 DashboardsResource 1 = Inr ''dashboard1''"
    "Name service1 OrgsResource 1 = Inr ''o1''"
    "Name service1 TelegrafsResource 1 = Inr ''telegraf1''"
    "Name service1 UsersResource 1 = Inr ''user1''"
    by simp_all
  from Name_by_kind [of 7 TasksResource service1] v a
  have r7: "\<exists>err. Name service1 BucketsResource 7 = Inl err \<and> ErrorCode err = ENotFound"
    "\<exists>err. Name service1 DashboardsResource 7 = Inl err \<and> ErrorCode err = ENotFound"
    "\<exists>err. Name service1 OrgsResource 7 = Inl err \<and> ErrorCode err = ENotFound"
    "\<exists>err. Name service1 TelegrafsResource 7 = Inl err \<and> ErrorCode err = ENotFound"
    "\<exists>err. Name service1 UsersResource 7 = Inl err \<and> ErrorCode err = ENotFound"
    by blast+
  from v k(1) u a r1 r2 r3 r4 r5 r6 r7 show ?thesis by blast
qed

section \<open>The operations on the example state\<close>

lemma AddDashboardCell_service1:
  "AddDashboardCell service1 (Dashboard_ID dashboard1) cell0 noUsingView =
     (NilErr, \<lparr>Cell_ID = 100, ViewID = 101\<rparr>,
      service1\<lparr>idCalls := Suc (Suc 0),
        viewKV := (viewKV service1)(101 \<mapsto> \<lparr>View_ID = 101\<rparr>),
        timeCalls := Suc 0,
        dashboardKV := (dashboardKV service1)(1 \<mapsto>
          DashboardV (dashboard1\<lparr>Cells := [cellA, cellB, \<lparr>Cell_ID = 100, ViewID = 101\<rparr>],
            Meta := \<lparr>CreatedAt = 5, UpdatedAt = 1000\<rparr>\<rparr>))\<rparr>)"
  by (simp add: AddDashboardCell_def FindDashboardByID_stored [OF service1_stored] Let_def
        newID_def createViewIfNotExists_def PutView_def PutDashboardWithMeta_eq
        noUsingView_def Valid_def cell0_def)
     (simp add: service1_def dashboard1_def)

lemma RemoveDashboardCell_after_add:
  "RemoveDashboardCell
     (snd (snd (AddDashboardCell service1 (Dashboard_ID dashboard1) cell0 noUsingView)))
     (Dashboard_ID dashboard1) 100 =
   (NilErr,
    service1\<lparr>idCalls := Suc (Suc 0),
      viewKV := (viewKV service1)(101 := None),
      timeCalls := Suc (Suc 0),
      dashboardKV := (dashboardKV service1)(1 \<mapsto>
        DashboardV (dashboard1\<lparr>Cells := [cellA, cellB],
          Meta := \<lparr>CreatedAt = 5, UpdatedAt = 1001\<rparr>\<rparr>))\<rparr>)"
  apply (simp only: AddDashboardCell_service1 snd_conv)
  apply (simp add: RemoveDashboardCell_def FindDashboardByID_def
        loadDashboard_def Let_def DeleteView_def PutDashboardWithMeta_eq dashboard1_def
        cellA_def cellB_def)
  apply (simp add: service1_def)
  done


lemma UpdateDashboardCell_service1:
  "fst (UpdateDashboardCell service1 (Dashboard_ID dashboard1) 10 validPatch) = Inr cellA"
  by (simp add: UpdateDashboardCell_def FindDashboardByID_stored [OF service1_stored] Let_def
        validPatch_def PutDashboardWithMeta_eq dashboard1_cells cellA_def cellB_def)

lemma RemoveDashboardCell_service1:
  "fst (RemoveDashboardCell service1 (Dashboard_ID dashboard1) 10) = NilErr"
  by (simp add: RemoveDashboardCell_def FindDashboardByID_stored [OF service1_stored] Let_def
        DeleteView_def PutDashboardWithMeta_eq dashboard1_cells cellA_def cellB_def)
     (simp add: service1_def PutDashboardWithMeta_eq)

lemma ReplaceDashboardCells_service1:
  "fst (ReplaceDashboardCells service1 (Dashboard_ID dashboard1) [cellB, cellA]) = NilErr"
  by (simp add: ReplaceDashboardCells_stored [OF service1_stored] cellsByID_def Valid_def
        dashboard1_cells cellA_def cellB_def)

section \<open>The time of the last update\<close>

text \<open>
  C7. For a dashboard stored under its ID: \<open>PutDashboardCell\<close> succeeds, appends the cell,
  stores a view under the \<open>ViewID\<close> of the cell, and leaves \<open>Meta\<close> (so \<open>UpdatedAt\<close>) as it
  was, without reading the clock; \<open>AddDashboardCell\<close>, \<open>RemoveDashboardCell\<close>,
  \<open>UpdateDashboardCell\<close> and \<open>ReplaceDashboardCells\<close>, when they succeed, leave the dashboard
  stored with \<open>UpdatedAt\<close> equal to the value the clock gave at the call.
\<close>

theorem UpdatedAt_asymmetry:
  "dashboardKV s (Dashboard_ID d) = Some (DashboardV d) \<Longrightarrow>
     (\<exists>s1 d1. PutDashboardCell s (Dashboard_ID d) cell = (NilErr, s1) \<and>
         dashboardKV s1 (Dashboard_ID d) = Some (DashboardV d1) \<and>
         Cells d1 = Cells d @ [cell] \<and> Meta d1 = Meta d \<and>
         viewKV s1 (ViewID cell) = Some \<lparr>View_ID = ViewID cell\<rparr> \<and>
         timeCalls s1 = timeCalls s) \<and>
     (fst (AddDashboardCell s (Dashboard_ID d) newCell opts) = NilErr \<longrightarrow>
        (\<exists>d1. dashboardKV (snd (snd (AddDashboardCell s (Dashboard_ID d) newCell opts)))
                 (Dashboard_ID d) = Some (DashboardV d1) \<and>
              UpdatedAt (Meta d1) = timeFn s (timeCalls s))) \<and>
     (fst (RemoveDashboardCell s (Dashboard_ID d) cellID) = NilErr \<longrightarrow>
        (\<exists>d1. dashboardKV (snd (RemoveDashboardCell s (Dashboard_ID d) cellID))
                 (Dashboard_ID d) = Some (DashboardV d1) \<and>
              UpdatedAt (Meta d1) = timeFn s (timeCalls s))) \<and>
     ((\<exists>c1. fst (UpdateDashboardCell s (Dashboard_ID d) cellID upd) = Inr c1) \<longrightarrow>
        (\<exists>d1. dashboardKV (snd (UpdateDashboardCell s (Dashboard_ID d) cellID upd))
                 (Dashboard_ID d) = Some (DashboardV d1) \<and>
              UpdatedAt (Meta d1) = timeFn s (timeCalls s))) \<and>
     (fst (ReplaceDashboardCells s (Dashboard_ID d) cs) = NilErr \<longrightarrow>
        (\<exists>d1. dashboardKV (snd (ReplaceDashboardCells s (Dashboard_ID d) cs))
                 (Dashboard_ID d) = Some (DashboardV d1) \<and>
              UpdatedAt (Meta d1) = timeFn s (timeCalls s)))"
proof -
  assume stored: "dashboardKV s (Dashboard_ID d) = Some (DashboardV d)"
  have put: "\<exists>s1 d1. PutDashboardCell s (Dashboard_ID d) cell = (NilErr, s1) \<and>
         dashboardKV s1 (Dashboard_ID d) = Some (DashboardV d1) \<and>
         Cells d1 = Cells d @ [cell] \<and> Meta d1 = Meta d \<and>
         viewKV s1 (ViewID cell) = Some \<lparr>View_ID = ViewID cell\<rparr> \<and>
         timeCalls s1 = timeCalls s"
    by (simp add: PutDashboardCell_eq [OF stored])
  have add: "\<exists>d1. dashboardKV (snd (snd (AddDashboardCell s (Dashboard_ID d) newCell opts)))
                 (Dashboard_ID d) = Some (DashboardV d1) \<and>
              UpdatedAt (Meta d1) = timeFn s (timeCalls s)"
    if ok: "fst (AddDashboardCell s (Dashboard_ID d) newCell opts) = NilErr"
  proof -
    obtain e c1 s1 where r: "AddDashboardCell s (Dashboard_ID d) newCell opts = (e, c1, s1)"
      by (cases "AddDashboardCell s (Dashboard_ID d) newCell opts")
    with ok have r': "AddDashboardCell s (Dashboard_ID d) newCell opts = (NilErr, c1, s1)" by simp
    show ?thesis
      by (simp add: r' AddDashboardCell_success(1) [OF stored r'])
  qed
  have remove: "\<exists>d1. dashboardKV (snd (RemoveDashboardCell s (Dashboard_ID d) cellID))
                 (Dashboard_ID d) = Some (DashboardV d1) \<and>
              UpdatedAt (Meta d1) = timeFn s (timeCalls s)"
    if ok: "fst (RemoveDashboardCell s (Dashboard_ID d) cellID) = NilErr"
  proof -
    obtain e s1 where r: "RemoveDashboardCell s (Dashboard_ID d) cellID = (e, s1)"
      by (cases "RemoveDashboardCell s (Dashboard_ID d) cellID")
    with ok have r': "RemoveDashboardCell s (Dashboard_ID d) cellID = (NilErr, s1)" by simp
    from RemoveDashboardCell_success [OF stored r'] show ?thesis
      by (auto simp: r')
  qed
  have update: "\<exists>d1. dashboardKV (snd (UpdateDashboardCell s (Dashboard_ID d) cellID upd))
                 (Dashboard_ID d) = Some (DashboardV d1) \<and>
              UpdatedAt (Meta d1) = timeFn s (timeCalls s)"
    if ok: "\<exists>c1. fst (UpdateDashboardCell s (Dashboard_ID d) cellID upd) = Inr c1"
  proof -
    from ok obtain c1 where c: "fst (UpdateDashboardCell s (Dashboard_ID d) cellID upd) = Inr c1"
      by blast
    obtain e s1 where r: "UpdateDashboardCell s (Dashboard_ID d) cellID upd = (e, s1)"
      by (cases "UpdateDashboardCell s (Dashboard_ID d) cellID upd")
    with c have r': "UpdateDashboardCell s (Dashboard_ID d) cellID upd = (Inr c1, s1)" by simp
    from UpdateDashboardCell_success [OF stored r'] show ?thesis
      by (auto simp: r')
  qed
  have replace: "\<exists>d1. dashboardKV (snd (ReplaceDashboardCells s (Dashboard_ID d) cs))
                 (Dashboard_ID d) = Some (DashboardV d1) \<and>
              UpdatedAt (Meta d1) = timeFn s (timeCalls s)"
    if ok: "fst (ReplaceDashboardCells s (Dashboard_ID d) cs) = NilErr"
    using ok by (simp add: ReplaceDashboardCells_stored [OF stored] split: if_splits)
  from put add remove update replace show ?thesis by blast
qed

theorem UpdatedAt_asymmetry_witness:
  "dashboardKV service1 (Dashboard_ID dashboard1) = Some (DashboardV dashboard1) \<and>
   Meta dashboard1 = \<lparr>CreatedAt = 5, UpdatedAt = 5\<rparr> \<and>
   timeFn service1 (timeCalls service1) = 1000 \<and>
   (\<exists>s1 d1. PutDashboardCell service1 (Dashboard_ID dashboard1) cellX = (NilErr, s1) \<and>
       dashboardKV s1 (Dashboard_ID dashboard1) = Some (DashboardV d1) \<and>
       Cells d1 = [cellA, cellB, cellX] \<and> UpdatedAt (Meta d1) = 5 \<and>
       viewKV s1 (ViewID cellX) = Some \<lparr>View_ID = ViewID cellX\<rparr>) \<and>
   fst (AddDashboardCell service1 (Dashboard_ID dashboard1) cell0 noUsingView) = NilErr \<and>
   (\<exists>d1. dashboardKV
           (snd (snd (AddDashboardCell service1 (Dashboard_ID dashboard1) cell0 noUsingView)))
           (Dashboard_ID dashboard1) = Some (DashboardV d1) \<and>
         UpdatedAt (Meta d1) = 1000) \<and>
   fst (RemoveDashboardCell service1 (Dashboard_ID dashboard1) 10) = NilErr \<and>
   (\<exists>d1. dashboardKV (snd (RemoveDashboardCell service1 (Dashboard_ID dashboard1) 10))
           (Dashboard_ID dashboard1) = Some (DashboardV d1) \<and>
         UpdatedAt (Meta d1) = 1000) \<and>
   fst (UpdateDashboardCell service1 (Dashboard_ID dashboard1) 10 validPatch) = Inr cellA \<and>
   (\<exists>d1. dashboardKV (snd (UpdateDashboardCell service1 (Dashboard_ID dashboard1) 10 validPatch))
           (Dashboard_ID dashboard1) = Some (DashboardV d1) \<and>
         UpdatedAt (Meta d1) = 1000) \<and>
   fst (ReplaceDashboardCells service1 (Dashboard_ID dashboard1) [cellB, cellA]) = NilErr \<and>
   (\<exists>d1. dashboardKV (snd (ReplaceDashboardCells service1 (Dashboard_ID dashboard1) [cellB, cellA]))
           (Dashboard_ID dashboard1) = Some (DashboardV d1) \<and>
         UpdatedAt (Meta d1) = 1000)"
proof -
  have m: "Meta dashboard1 = \<lparr>CreatedAt = 5, UpdatedAt = 5\<rparr>"
    and cells: "Cells dashboard1 = [cellA, cellB]"
    by (simp_all add: dashboard1_def)
  have t: "timeFn service1 (timeCalls service1) = 1000" by (simp add: service1_def)
  have a: "fst (AddDashboardCell service1 (Dashboard_ID dashboard1) cell0 noUsingView) = NilErr"
    by (simp add: AddDashboardCell_service1)
  have u: "\<exists>c1. fst (UpdateDashboardCell service1 (Dashboard_ID dashboard1) 10 validPatch) = Inr c1"
    by (simp add: UpdateDashboardCell_service1)
  from UpdatedAt_asymmetry [OF service1_stored, of cellX cell0 noUsingView 10 validPatch "[cellB, cellA]"]
    a u RemoveDashboardCell_service1 ReplaceDashboardCells_service1
  have "(\<exists>s1 d1. PutDashboardCell service1 (Dashboard_ID dashboard1) cellX = (NilErr, s1) \<and>
       dashboardKV s1 (Dashboard_ID dashboard1) = Some (DashboardV d1) \<and>
       Cells d1 = [cellA, cellB, cellX] \<and> UpdatedAt (Meta d1) = 5 \<and>
       viewKV s1 (ViewID cellX) = Some \<lparr>View_ID = ViewID cellX\<rparr>) \<and>
   (\<exists>d1. dashboardKV
           (snd (snd (AddDashboardCell service1 (Dashboard_ID dashboard1) cell0 noUsingView)))
           (Dashboard_ID dashboard1) = Some (DashboardV d1) \<and>
         UpdatedAt (Meta d1) = 1000) \<and>
   (\<exists>d1. dashboardKV (snd (RemoveDashboardCell service1 (Dashboard_ID dashboard1) 10))
           (Dashboard_ID dashboard1) = Some (DashboardV d1) \<and>
         UpdatedAt (Meta d1) = 1000) \<and>
   (\<exists>d1. dashboardKV (snd (UpdateDashboardCell service1 (Dashboard_ID dashboard1) 10 validPatch))
           (Dashboard_ID dashboard1) = Some (DashboardV d1) \<and>
         UpdatedAt (Meta d1) = 1000) \<and>
   (\<exists>d1. dashboardKV (snd (ReplaceDashboardCells service1 (Dashboard_ID dashboard1) [cellB, cellA]))
           (Dashboard_ID dashboard1) = Some (DashboardV d1) \<and>
         UpdatedAt (Meta d1) = 1000)"
    by (simp only: t m cells) auto
  with service1_stored m t a RemoveDashboardCell_service1 UpdateDashboardCell_service1
    ReplaceDashboardCells_service1
  show ?thesis by blast
qed

section \<open>Adding a cell and removing it again\<close>

lemma cellIndex_append_fresh:
  "cellID \<notin> Cell_ID ` set cells \<Longrightarrow>
     cellIndex cellID (cells @ [cell]) = (if Cell_ID cell = cellID then Some (length cells) else None)"
  by (induction cells) auto

text \<open>
  C3. Round trip. For a dashboard \<open>d\<close> stored under its ID and an ID generator whose next ID
  is fresh (not the ID of a cell of \<open>d\<close>): if \<open>AddDashboardCell\<close> succeeds, leaving the cell
  \<open>cell1\<close> with its ID and view, and \<open>RemoveDashboardCell\<close> with the ID of \<open>cell1\<close> then
  succeeds, the dashboard stored has the cells it had before \<open>AddDashboardCell\<close>; the view
  of \<open>cell1\<close>, stored after \<open>AddDashboardCell\<close>, is no longer stored, and no view that
  \<open>AddDashboardCell\<close> created is.
\<close>

theorem AddDashboardCell_RemoveDashboardCell_round_trip:
  "dashboardKV s (Dashboard_ID d) = Some (DashboardV d) \<Longrightarrow>
   IDGenerator s (idCalls s) \<notin> Cell_ID ` set (Cells d) \<Longrightarrow>
   AddDashboardCell s (Dashboard_ID d) cell opts = (NilErr, cell1, s1) \<Longrightarrow>
   RemoveDashboardCell s1 (Dashboard_ID d) (Cell_ID cell1) = (NilErr, s2) \<Longrightarrow>
     (\<exists>d2. dashboardKV s2 (Dashboard_ID d) = Some (DashboardV d2) \<and> Cells d2 = Cells d) \<and>
     viewKV s1 (ViewID cell1) \<noteq> None \<and>
     viewKV s2 (ViewID cell1) = None \<and>
     (\<forall>v. viewKV s v = None \<and> viewKV s1 v \<noteq> None \<longrightarrow> viewKV s2 v = None)"
proof -
  assume stored: "dashboardKV s (Dashboard_ID d) = Some (DashboardV d)"
    and fresh: "IDGenerator s (idCalls s) \<notin> Cell_ID ` set (Cells d)"
    and add: "AddDashboardCell s (Dashboard_ID d) cell opts = (NilErr, cell1, s1)"
    and rm: "RemoveDashboardCell s1 (Dashboard_ID d) (Cell_ID cell1) = (NilErr, s2)"
  let ?d1 = "d\<lparr>Cells := Cells d @ [cell1],
                Meta := (Meta d)\<lparr>UpdatedAt := timeFn s (timeCalls s)\<rparr>\<rparr>"
  note a = AddDashboardCell_success [OF stored add]
  from a(1) have stored1: "dashboardKV s1 (Dashboard_ID d) = Some (DashboardV ?d1)" by simp
  from fresh a(2) have idx: "cellIndex (Cell_ID cell1) (Cells ?d1) = Some (length (Cells d))"
    by (simp add: cellIndex_append_fresh)
  from RemoveDashboardCell_success [OF stored1 rm] idx
  have kv2: "dashboardKV s2 =
      (dashboardKV s1)(Dashboard_ID d \<mapsto>
         DashboardV (?d1\<lparr>Cells := Cells d,
            Meta := (Meta ?d1)\<lparr>UpdatedAt := timeFn s1 (timeCalls s1)\<rparr>\<rparr>))"
    and v2: "viewKV s2 = (viewKV s1)(ViewID cell1 := None)"
    by auto
  from kv2 have "\<exists>d2. dashboardKV s2 (Dashboard_ID d) = Some (DashboardV d2) \<and> Cells d2 = Cells d"
    by simp
  moreover from a(3) have "viewKV s1 (ViewID cell1) \<noteq> None" .
  moreover from v2 have "viewKV s2 (ViewID cell1) = None" by simp
  moreover from v2 a(4)
  have "\<forall>v. viewKV s v = None \<and> viewKV s1 v \<noteq> None \<longrightarrow> viewKV s2 v = None"
    by (metis fun_upd_apply)
  ultimately show ?thesis by blast
qed

theorem AddDashboardCell_RemoveDashboardCell_round_trip_witness:
  "dashboardKV service1 (Dashboard_ID dashboard1) = Some (DashboardV dashboard1) \<and>
   Cells dashboard1 = [cellA, cellB] \<and>
   IDGenerator service1 (idCalls service1) \<notin> Cell_ID ` set (Cells dashboard1) \<and>
   fst (AddDashboardCell service1 (Dashboard_ID dashboard1) cell0 noUsingView) = NilErr \<and>
   fst (snd (AddDashboardCell service1 (Dashboard_ID dashboard1) cell0 noUsingView))
     = \<lparr>Cell_ID = 100, ViewID = 101\<rparr> \<and>
   fst (RemoveDashboardCell
          (snd (snd (AddDashboardCell service1 (Dashboard_ID dashboard1) cell0 noUsingView)))
          (Dashboard_ID dashboard1) 100) = NilErr \<and>
   (\<exists>d2. dashboardKV
           (snd (RemoveDashboardCell
              (snd (snd (AddDashboardCell service1 (Dashboard_ID dashboard1) cell0 noUsingView)))
              (Dashboard_ID dashboard1) 100))
           (Dashboard_ID dashboard1) = Some (DashboardV d2) \<and>
         Cells d2 = [cellA, cellB]) \<and>
   viewKV service1 101 = None \<and>
   viewKV (snd (snd (AddDashboardCell service1 (Dashboard_ID dashboard1) cell0 noUsingView))) 101
     \<noteq> None \<and>
   viewKV (snd (RemoveDashboardCell
              (snd (snd (AddDashboardCell service1 (Dashboard_ID dashboard1) cell0 noUsingView)))
              (Dashboard_ID dashboard1) 100)) 101 = None"
proof -
  let ?add = "AddDashboardCell service1 (Dashboard_ID dashboard1) cell0 noUsingView"
  let ?rm = "RemoveDashboardCell (snd (snd ?add)) (Dashboard_ID dashboard1) 100"
  have cells: "Cells dashboard1 = [cellA, cellB]" by (simp add: dashboard1_def)
  have fresh: "IDGenerator service1 (idCalls service1) \<notin> Cell_ID ` set (Cells dashboard1)"
    by (simp add: cells service1_def cellA_def cellB_def)
  have a1: "fst ?add = NilErr" and a2: "fst (snd ?add) = \<lparr>Cell_ID = 100, ViewID = 101\<rparr>"
    by (simp_all add: AddDashboardCell_service1)
  have add: "?add = (NilErr, \<lparr>Cell_ID = 100, ViewID = 101\<rparr>, snd (snd ?add))"
    using a1 a2 by (metis prod.collapse)
  have r1: "fst ?rm = NilErr" by (simp add: RemoveDashboardCell_after_add)
  have rm: "RemoveDashboardCell (snd (snd ?add)) (Dashboard_ID dashboard1)
              (Cell_ID \<lparr>Cell_ID = 100, ViewID = 101\<rparr>) = (NilErr, snd ?rm)"
    using r1 by (metis prod.collapse Cell.select_convs(1))
  have v0: "viewKV service1 101 = None" by (simp add: service1_def)
  from AddDashboardCell_RemoveDashboardCell_round_trip [OF service1_stored fresh add rm]
  have "(\<exists>d2. dashboardKV (snd ?rm) (Dashboard_ID dashboard1) = Some (DashboardV d2) \<and>
            Cells d2 = [cellA, cellB]) \<and>
        viewKV (snd (snd ?add)) 101 \<noteq> None \<and> viewKV (snd ?rm) 101 = None"
    by (simp add: cells)
  with service1_stored cells fresh a1 a2 r1 v0 show ?thesis by blast
qed

end
